theory Spec2Isabelle
  imports Main "HOL-Library.AList" "HOL-Library.Word"
begin

section \<open>Python values, exceptions and the library functions the server calls\<close>

text \<open>
  The values that flow through \<^verbatim>\<open>MCPServer\<close> are the Python objects that
  \<^verbatim>\<open>json.loads\<close> produces and \<^verbatim>\<open>json.dumps\<close> accepts: \<^verbatim>\<open>None\<close>, \<^verbatim>\<open>bool\<close>,
  \<^verbatim>\<open>int\<close>, \<^verbatim>\<open>float\<close> (carried by its IEEE-754 bit pattern; no arithmetic is done on it),
  \<^verbatim>\<open>str\<close>, \<^verbatim>\<open>list\<close> and \<^verbatim>\<open>dict\<close> with \<^verbatim>\<open>str\<close> keys. A dict is an association list
  in insertion order, read with \<open>map_of\<close>. Tool and resource handlers are taken to return
  values of these types as well.
\<close>

datatype pyval =
    PNone
  | PBool bool
  | PInt int
  | PFloat "64 word"
  | PStr string
  | PList "pyval list"
  | PDict "(string \<times> pyval) list"

text \<open>
  An instance of \<^verbatim>\<open>Exception\<close>: its class name and the text \<^verbatim>\<open>str(e)\<close>. Conditions that
  derive from \<^verbatim>\<open>BaseException\<close> only (\<^verbatim>\<open>KeyboardInterrupt\<close>, \<^verbatim>\<open>SystemExit\<close>) are not
  part of the model.
\<close>

datatype pyexception = PyException (exc_class: string) (exc_str: string)

text \<open>
  The functions of the Python library whose results the server only passes on:
  \<^verbatim>\<open>json.loads(line)\<close>, \<^verbatim>\<open>json.dumps(obj, indent=...)\<close> (total on the values above) and
  the built-in \<^verbatim>\<open>repr\<close>.
\<close>

record pylib =
  json_loads :: "string \<Rightarrow> pyexception + pyval"
  json_dumps :: "nat option \<Rightarrow> pyval \<Rightarrow> string"
  py_repr :: "pyval \<Rightarrow> string"

fun type_name :: "pyval \<Rightarrow> string" where
  "type_name PNone = ''NoneType''"
| "type_name (PBool b) = ''bool''"
| "type_name (PInt i) = ''int''"
| "type_name (PFloat f) = ''float''"
| "type_name (PStr s) = ''str''"
| "type_name (PList xs) = ''list''"
| "type_name (PDict d) = ''dict''"

definition quoted :: "string \<Rightarrow> string" where
  "quoted s = CHR 0x27 # s @ [CHR 0x27]"

text \<open>\<^verbatim>\<open>str(v)\<close>, as an f-string formats a value.\<close>

definition py_str :: "pylib \<Rightarrow> pyval \<Rightarrow> string" where
  "py_str lib v =
     (case v of
        PStr s \<Rightarrow> s
      | PNone \<Rightarrow> ''None''
      | PBool b \<Rightarrow> (if b then ''True'' else ''False'')
      | _ \<Rightarrow> py_repr lib v)"

text \<open>\<^verbatim>\<open>d.get(k, dflt)\<close> on a dict.\<close>

definition dict_get :: "(string \<times> pyval) list \<Rightarrow> string \<Rightarrow> pyval \<Rightarrow> pyval" where
  "dict_get d k dflt = (case map_of d k of Some v \<Rightarrow> v | None \<Rightarrow> dflt)"

text \<open>
  \<^verbatim>\<open>obj.get(k, dflt)\<close> on any decoded value: only a dict has the method, every other
  object raises \<^verbatim>\<open>AttributeError\<close>.
\<close>

definition py_get :: "pyval \<Rightarrow> string \<Rightarrow> pyval \<Rightarrow> pyexception + pyval" where
  "py_get obj k dflt =
     (case obj of
        PDict d \<Rightarrow> Inr (dict_get d k dflt)
      | _ \<Rightarrow> Inl (PyException ''AttributeError''
                 (quoted (type_name obj) @ '' object has no attribute '' @ quoted ''get'')))"

text \<open>
  \<^verbatim>\<open>hash(k)\<close> succeeds on every value but a list and a dict, which raise
  \<^verbatim>\<open>TypeError\<close>.
\<close>

fun hashable :: "pyval \<Rightarrow> bool" where
  "hashable (PList xs) = False"
| "hashable (PDict d) = False"
| "hashable v = True"

definition unhashable_type :: "pyval \<Rightarrow> pyexception" where
  "unhashable_type k = PyException ''TypeError'' (''unhashable type: '' @ quoted (type_name k))"

text \<open>
  \<^verbatim>\<open>k in d\<close> for a registry \<open>d\<close> keyed by strings: the key is hashed first; a hashable
  value that is not a string equals no key.
\<close>

definition py_in :: "pyval \<Rightarrow> (string \<times> 'a) list \<Rightarrow> pyexception + bool" where
  "py_in k d =
     (if \<not> hashable k then Inl (unhashable_type k)
      else Inr (case k of PStr s \<Rightarrow> s \<in> set (map fst d) | _ \<Rightarrow> False))"

text \<open>\<^verbatim>\<open>d[k]\<close>: \<^verbatim>\<open>KeyError\<close> (whose text is the repr of the key) when the key is missing.\<close>

definition py_getitem :: "pylib \<Rightarrow> (string \<times> 'a) list \<Rightarrow> pyval \<Rightarrow> pyexception + 'a" where
  "py_getitem lib d k =
     (if \<not> hashable k then Inl (unhashable_type k)
      else
        (case (case k of PStr s \<Rightarrow> map_of d s | _ \<Rightarrow> None) of
           Some v \<Rightarrow> Inr v
         | None \<Rightarrow> Inl (PyException ''KeyError'' (py_repr lib k))))"

subsection \<open>Strings: \<^verbatim>\<open>sub in s\<close> and \<^verbatim>\<open>s.split(sep)\<close>\<close>

definition startswith :: "string \<Rightarrow> string \<Rightarrow> bool" where
  "startswith s sub = (take (length sub) s = sub)"

fun str_contains :: "string \<Rightarrow> string \<Rightarrow> bool" where
  "str_contains [] sub = (sub = [])"
| "str_contains (c # cs) sub = (startswith (c # cs) sub \<or> str_contains cs sub)"

text \<open>
  \<^verbatim>\<open>s.split(sep)\<close> scans from the left: at the leftmost occurrence of \<open>sep\<close> the piece
  read so far is emitted and the scan goes on behind the separator. \<open>cur\<close> is the piece
  being read.
\<close>

function py_split_from :: "string \<Rightarrow> string \<Rightarrow> string \<Rightarrow> string list" where
  "py_split_from sep cur [] = [cur]"
| "py_split_from sep cur (c # cs) =
     (if sep \<noteq> [] \<and> startswith (c # cs) sep
      then cur # py_split_from sep [] (drop (length sep) (c # cs))
      else py_split_from sep (cur @ [c]) cs)"
  by pat_completeness auto
termination
  by (relation "measure (\<lambda>(sep, cur, s). length s)") auto

definition py_split :: "string \<Rightarrow> string \<Rightarrow> pyexception + string list" where
  "py_split sep s =
     (if sep = [] then Inl (PyException ''ValueError'' ''empty separator'')
      else Inr (py_split_from sep [] s))"

text \<open>\<^verbatim>\<open>xs[i]\<close> for an index \<open>i \<ge> 0\<close>: \<^verbatim>\<open>IndexError\<close> out of range.\<close>

definition list_getitem :: "'a list \<Rightarrow> nat \<Rightarrow> pyexception + 'a" where
  "list_getitem xs i =
     (if i < length xs then Inr (xs ! i)
      else Inl (PyException ''IndexError'' ''list index out of range''))"

section \<open>Handlers and their signatures\<close>

text \<open>
  What \<^verbatim>\<open>_python_type_to_json_type\<close> can be handed, that is, what a parameter can be
  annotated with: one of the six classes of its \<^verbatim>\<open>type_map\<close>, an object with an
  \<^verbatim>\<open>__origin__\<close> attribute (a parameterized generic such as \<^verbatim>\<open>List[int]\<close>: its origin
  and its arguments), the sentinel \<^verbatim>\<open>inspect.Parameter.empty\<close>, a \<^verbatim>\<open>str\<close> object, any
  other hashable object (named by its repr), or an object that cannot be hashed, such as
  the list \<^verbatim>\<open>[int]\<close> (named by the name of its type, here \<open>list\<close>).
\<close>

datatype pyannot =
    Class_int
  | Class_float
  | Class_str
  | Class_bool
  | Class_list
  | Class_dict
  | Generic pyannot "pyannot list"
  | Parameter_empty
  | Str_object string
  | Other_object string
  | Unhashable_object string

text \<open>One entry of \<^verbatim>\<open>inspect.signature(func).parameters\<close>.\<close>

record parameter =
  param_name :: string
  param_annotation :: pyannot
  param_default :: "pyval option"

text \<open>
  A Python function object: \<^verbatim>\<open>__name__\<close>, the name CPython 3.9 and later print for it
  in the messages of a failed call (\<^verbatim>\<open>__module__\<close>, a dot and \<^verbatim>\<open>__qualname__\<close>, such as
  \<^verbatim>\<open>__main__.add\<close>), \<^verbatim>\<open>__doc__\<close>, the parameters of its signature in declaration
  order, and what calling it with keyword arguments does: it reads and changes the world
  \<open>'w\<close> outside the server (the operating system) and returns a value or raises. A
  failure to bind the arguments is one of the ways it raises (\<^verbatim>\<open>TypeError\<close>).
\<close>

record 'w pyfunc =
  func_name :: string
  func_qualname :: string
  func_doc :: "string option"
  func_sig :: "parameter list"
  func_call :: "(string \<times> pyval) list \<Rightarrow> 'w \<Rightarrow> (pyexception + pyval) \<times> 'w"

text \<open>\<^verbatim>\<open>func(**arguments)\<close>: the argument after \<^verbatim>\<open>**\<close> must be a mapping.\<close>

definition call_kwargs :: "'w pyfunc \<Rightarrow> pyval \<Rightarrow> 'w \<Rightarrow> (pyexception + pyval) \<times> 'w" where
  "call_kwargs func arguments w =
     (case arguments of
        PDict kw \<Rightarrow> func_call func kw w
      | _ \<Rightarrow> (Inl (PyException ''TypeError''
                 (func_qualname func @ ''() argument after ** must be a mapping, not ''
                    @ type_name arguments)), w))"

section \<open>Schema synthesis\<close>

text \<open>
  \<^verbatim>\<open>hash(key)\<close>, which a dict lookup computes first: the name of the type of the first
  object met that cannot be hashed, if there is one. A parameterized generic is hashed
  through its origin and then its arguments.
\<close>

fun unhashable_in :: "pyannot \<Rightarrow> string option"
  and unhashable_in_list :: "pyannot list \<Rightarrow> string option" where
  "unhashable_in (Unhashable_object tn) = Some tn"
| "unhashable_in (Generic origin args) =
     (case unhashable_in origin of Some tn \<Rightarrow> Some tn | None \<Rightarrow> unhashable_in_list args)"
| "unhashable_in Class_int = None"
| "unhashable_in Class_float = None"
| "unhashable_in Class_str = None"
| "unhashable_in Class_bool = None"
| "unhashable_in Class_list = None"
| "unhashable_in Class_dict = None"
| "unhashable_in Parameter_empty = None"
| "unhashable_in (Str_object s) = None"
| "unhashable_in (Other_object r) = None"
| "unhashable_in_list [] = None"
| "unhashable_in_list (a # as) =
     (case unhashable_in a of Some tn \<Rightarrow> Some tn | None \<Rightarrow> unhashable_in_list as)"

text \<open>The dict \<^verbatim>\<open>type_map\<close> and \<^verbatim>\<open>type_map.get(key, dflt)\<close>.\<close>

definition type_map :: "(pyannot \<times> string) list" where
  "type_map =
     [(Class_int, ''integer''),
      (Class_float, ''number''),
      (Class_str, ''string''),
      (Class_bool, ''boolean''),
      (Class_list, ''array''),
      (Class_dict, ''object'')]"

definition type_map_get :: "pyannot \<Rightarrow> string \<Rightarrow> pyexception + string" where
  "type_map_get key dflt =
     (case unhashable_in key of
        Some tn \<Rightarrow> Inl (PyException ''TypeError'' (''unhashable type: '' @ quoted tn))
      | None \<Rightarrow> Inr (case map_of type_map key of Some t \<Rightarrow> t | None \<Rightarrow> dflt))"

definition python_type_to_json_type :: "pyannot \<Rightarrow> pyexception + string" where
  "python_type_to_json_type python_type =
     (case python_type of
        Generic origin args \<Rightarrow> type_map_get origin ''string''
      | _ \<Rightarrow> type_map_get python_type ''string'')"

text \<open>
  The loop of \<^verbatim>\<open>_get_schema\<close>: \<open>properties\<close> and \<open>required\<close> are its two
  accumulators. An exception of \<^verbatim>\<open>_python_type_to_json_type\<close> ends it.
\<close>

definition param_type :: "parameter \<Rightarrow> pyannot" where
  "param_type p =
     (if param_annotation p \<noteq> Parameter_empty then param_annotation p
      else Str_object ''string'')"

fun get_schema_loop ::
  "parameter list \<Rightarrow> (string \<times> pyval) list \<Rightarrow> string list
     \<Rightarrow> pyexception + (string \<times> pyval) list \<times> string list" where
  "get_schema_loop [] properties required = Inr (properties, required)"
| "get_schema_loop (p # ps) properties required =
     (if param_name p = ''self'' then get_schema_loop ps properties required
      else
        (case python_type_to_json_type (param_type p) of
           Inl e \<Rightarrow> Inl e
         | Inr t \<Rightarrow>
             get_schema_loop ps
               (AList.update (param_name p) (PDict [(''type'', PStr t)]) properties)
               (if param_default p = None then required @ [param_name p] else required)))"

definition get_schema :: "'w pyfunc \<Rightarrow> pyexception + pyval" where
  "get_schema func =
     (case get_schema_loop (func_sig func) [] [] of
        Inl e \<Rightarrow> Inl e
      | Inr (properties, required) \<Rightarrow>
          Inr (PDict [(''type'', PStr ''object''),
                      (''properties'', PDict properties),
                      (''required'', PList (map PStr required))]))"

section \<open>The server: registries\<close>

text \<open>
  The fields of \<^verbatim>\<open>MCPServer\<close>. A Python dict keeps insertion order, and assigning to a
  key that is present replaces its value in place: \<open>AList.update\<close>.
\<close>

record 'w mcp_server =
  name :: string
  tools :: "(string \<times> pyval) list"
  tool_functions :: "(string \<times> 'w pyfunc) list"
  resources :: "(string \<times> 'w pyfunc) list"

definition MCPServer :: "string \<Rightarrow> 'w mcp_server" where
  "MCPServer nm = \<lparr>name = nm, tools = [], tool_functions = [], resources = []\<rparr>"

text \<open>\<^verbatim>\<open>func.__doc__ or ""\<close>.\<close>

definition doc_or_empty :: "string option \<Rightarrow> string" where
  "doc_or_empty doc = (case doc of None \<Rightarrow> [] | Some d \<Rightarrow> (if d = [] then [] else d))"

text \<open>
  The decorator \<^verbatim>\<open>tool\<close>. The descriptor is built before anything is stored, so an
  exception of \<^verbatim>\<open>_get_schema\<close> leaves the decorator with both maps as they were.
\<close>

definition tool :: "'w mcp_server \<Rightarrow> 'w pyfunc \<Rightarrow> pyexception + 'w mcp_server" where
  "tool srv func =
     (case get_schema func of
        Inl e \<Rightarrow> Inl e
      | Inr schema \<Rightarrow>
          Inr (srv\<lparr>tools :=
                     AList.update (func_name func)
                       (PDict [(''name'', PStr (func_name func)),
                               (''description'', PStr (doc_or_empty (func_doc func))),
                               (''inputSchema'', schema)])
                       (tools srv),
                   tool_functions := AList.update (func_name func) func (tool_functions srv)\<rparr>))"

definition resource :: "'w mcp_server \<Rightarrow> string \<Rightarrow> 'w pyfunc \<Rightarrow> 'w mcp_server" where
  "resource srv uri func = srv\<lparr>resources := AList.update uri func (resources srv)\<rparr>"

text \<open>
  The servers that registration can build: \<^verbatim>\<open>MCPServer(name)\<close> followed by any number
  of \<^verbatim>\<open>@mcp.tool\<close> and \<^verbatim>\<open>@mcp.resource(uri)\<close> decorations. The decorations run when
  the module is loaded, one after the other; an exception of one of them ends the
  program before any request is read.
\<close>

datatype 'w registration = Register_tool "'w pyfunc" | Register_resource string "'w pyfunc"

fun register :: "'w mcp_server \<Rightarrow> 'w registration \<Rightarrow> pyexception + 'w mcp_server" where
  "register srv (Register_tool func) = tool srv func"
| "register srv (Register_resource uri func) = Inr (resource srv uri func)"

fun register_all ::
  "'w mcp_server \<Rightarrow> 'w registration list \<Rightarrow> pyexception + 'w mcp_server" where
  "register_all srv [] = Inr srv"
| "register_all srv (r # regs) =
     (case register srv r of
        Inl e \<Rightarrow> Inl e
      | Inr srv' \<Rightarrow> register_all srv' regs)"

definition registered :: "string \<Rightarrow> 'w registration list \<Rightarrow> pyexception + 'w mcp_server" where
  "registered nm regs = register_all (MCPServer nm) regs"

text \<open>The functions registered as tools under a name, oldest first.\<close>

fun tool_registrations :: "string \<Rightarrow> 'w registration list \<Rightarrow> 'w pyfunc list" where
  "tool_registrations n [] = []"
| "tool_registrations n (Register_tool func # regs) =
     (if func_name func = n then func # tool_registrations n regs
      else tool_registrations n regs)"
| "tool_registrations n (Register_resource uri func # regs) = tool_registrations n regs"

section \<open>The server: request dispatch\<close>

definition error_response :: "pyval \<Rightarrow> int \<Rightarrow> string \<Rightarrow> pyval" where
  "error_response request_id code message =
     PDict [(''jsonrpc'', PStr ''2.0''),
            (''id'', request_id),
            (''error'', PDict [(''code'', PInt code), (''message'', PStr message)])]"

definition handle_initialize :: "'w mcp_server \<Rightarrow> pyval \<Rightarrow> pyval" where
  "handle_initialize srv request_id =
     PDict [(''jsonrpc'', PStr ''2.0''),
            (''id'', request_id),
            (''result'',
               PDict [(''protocolVersion'', PStr ''2024-11-05''),
                      (''capabilities'', PDict [(''tools'', PDict []), (''resources'', PDict [])]),
                      (''serverInfo'',
                         PDict [(''name'', PStr (name srv)), (''version'', PStr ''1.0.0'')])])]"

definition handle_tools_list :: "'w mcp_server \<Rightarrow> pyval \<Rightarrow> pyval" where
  "handle_tools_list srv request_id =
     PDict [(''jsonrpc'', PStr ''2.0''),
            (''id'', request_id),
            (''result'', PDict [(''tools'', PList (map snd (tools srv)))])]"

definition handle_tool_call ::
  "pylib \<Rightarrow> 'w mcp_server \<Rightarrow> pyval \<Rightarrow> pyval \<Rightarrow> 'w \<Rightarrow> (pyexception + pyval) \<times> 'w" where
  "handle_tool_call lib srv params request_id w =
     (case py_get params ''name'' PNone of
        Inl e \<Rightarrow> (Inl e, w)
      | Inr tool_name \<Rightarrow>
     (case py_get params ''arguments'' (PDict []) of
        Inl e \<Rightarrow> (Inl e, w)
      | Inr arguments \<Rightarrow>
     (case py_in tool_name (tools srv) of
        Inl e \<Rightarrow> (Inl e, w)
      | Inr present \<Rightarrow>
          if \<not> present
          then (Inr (error_response request_id (- 32602)
                       (''Unknown tool: '' @ py_str lib tool_name)), w)
          else
     (case py_getitem lib (tool_functions srv) tool_name of
        Inl e \<Rightarrow> (Inl e, w)
      | Inr func \<Rightarrow>
     (case call_kwargs func arguments w of
        (Inl e, w') \<Rightarrow> (Inl e, w')
      | (Inr result, w') \<Rightarrow>
          (Inr (PDict [(''jsonrpc'', PStr ''2.0''),
                       (''id'', request_id),
                       (''result'',
                          PDict [(''content'',
                                    PList [PDict [(''type'', PStr ''text''),
                                                  (''text'', PStr (json_dumps lib (Some 2) result))]])])]),
           w'))))))"

text \<open>
  \<^verbatim>\<open>uri.split("://")[1] if "://" in uri else uri\<close>, and the loop of
  \<^verbatim>\<open>_handle_resources_list\<close> over the keys of \<^verbatim>\<open>self.resources\<close> (\<open>listed\<close> is its
  local list \<^verbatim>\<open>resources\<close>).
\<close>

definition resource_name :: "string \<Rightarrow> pyexception + string" where
  "resource_name uri =
     (if str_contains uri ''://''
      then (case py_split ''://'' uri of
              Inl e \<Rightarrow> Inl e
            | Inr pieces \<Rightarrow> list_getitem pieces 1)
      else Inr uri)"

fun resources_list_loop :: "string list \<Rightarrow> pyval list \<Rightarrow> pyexception + pyval list" where
  "resources_list_loop [] listed = Inr listed"
| "resources_list_loop (uri # uris) listed =
     (case resource_name uri of
        Inl e \<Rightarrow> Inl e
      | Inr n \<Rightarrow>
          resources_list_loop uris
            (listed @ [PDict [(''uri'', PStr uri),
                                 (''name'', PStr n),
                                 (''mimeType'', PStr ''text/plain'')]]))"

definition handle_resources_list :: "'w mcp_server \<Rightarrow> pyval \<Rightarrow> pyexception + pyval" where
  "handle_resources_list srv request_id =
     (case resources_list_loop (map fst (resources srv)) [] of
        Inl e \<Rightarrow> Inl e
      | Inr rs \<Rightarrow>
          Inr (PDict [(''jsonrpc'', PStr ''2.0''),
                      (''id'', request_id),
                      (''result'', PDict [(''resources'', PList rs)])]))"

definition handle_resource_read ::
  "pylib \<Rightarrow> 'w mcp_server \<Rightarrow> pyval \<Rightarrow> pyval \<Rightarrow> 'w \<Rightarrow> (pyexception + pyval) \<times> 'w" where
  "handle_resource_read lib srv params request_id w =
     (case py_get params ''uri'' PNone of
        Inl e \<Rightarrow> (Inl e, w)
      | Inr uri \<Rightarrow>
     (case py_in uri (resources srv) of
        Inl e \<Rightarrow> (Inl e, w)
      | Inr present \<Rightarrow>
          if \<not> present
          then (Inr (error_response request_id (- 32602)
                       (''Unknown resource: '' @ py_str lib uri)), w)
          else
     (case py_getitem lib (resources srv) uri of
        Inl e \<Rightarrow> (Inl e, w)
      | Inr func \<Rightarrow>
     (case func_call func [] w of
        (Inl e, w') \<Rightarrow> (Inl e, w')
      | (Inr content, w') \<Rightarrow>
          (Inr (PDict [(''jsonrpc'', PStr ''2.0''),
                       (''id'', request_id),
                       (''result'',
                          PDict [(''contents'',
                                    PList [PDict [(''uri'', uri),
                                                  (''mimeType'', PStr ''text/plain''),
                                                  (''text'', content)]])])]),
           w')))))"

text \<open>The body of the \<^verbatim>\<open>try\<close> block of \<^verbatim>\<open>handle_request\<close>.\<close>

definition route ::
  "pylib \<Rightarrow> 'w mcp_server \<Rightarrow> pyval \<Rightarrow> pyval \<Rightarrow> pyval \<Rightarrow> 'w \<Rightarrow> (pyexception + pyval) \<times> 'w" where
  "route lib srv method params request_id w =
     (if method = PStr ''initialize'' then (Inr (handle_initialize srv request_id), w)
      else if method = PStr ''tools/list'' then (Inr (handle_tools_list srv request_id), w)
      else if method = PStr ''tools/call'' then handle_tool_call lib srv params request_id w
      else if method = PStr ''resources/list'' then (handle_resources_list srv request_id, w)
      else if method = PStr ''resources/read'' then handle_resource_read lib srv params request_id w
      else (Inr (error_response request_id (- 32601)
                   (''Method not found: '' @ py_str lib method)), w))"

text \<open>
  \<^verbatim>\<open>handle_request\<close>: the three \<^verbatim>\<open>request.get\<close> calls stand before the \<^verbatim>\<open>try\<close>, so
  what they raise leaves the function (\<open>Inl\<close>); every exception of the routed call is
  turned into a \<open>-32603\<close> envelope.
\<close>

definition handle_request ::
  "pylib \<Rightarrow> 'w mcp_server \<Rightarrow> pyval \<Rightarrow> 'w \<Rightarrow> (pyexception + pyval) \<times> 'w" where
  "handle_request lib srv request w =
     (case py_get request ''method'' PNone of
        Inl e \<Rightarrow> (Inl e, w)
      | Inr method \<Rightarrow>
     (case py_get request ''params'' (PDict []) of
        Inl e \<Rightarrow> (Inl e, w)
      | Inr params \<Rightarrow>
     (case py_get request ''id'' PNone of
        Inl e \<Rightarrow> (Inl e, w)
      | Inr request_id \<Rightarrow>
     (case route lib srv method params request_id w of
        (Inl e, w') \<Rightarrow> (Inr (error_response request_id (- 32603) (exc_str e)), w')
      | (Inr response, w') \<Rightarrow> (Inr response, w')))))"

section \<open>The transport loop\<close>

text \<open>The envelope the \<^verbatim>\<open>except\<close> branch of \<^verbatim>\<open>run\<close> prints.\<close>

definition parse_error_response :: "pyexception \<Rightarrow> pyval" where
  "parse_error_response e =
     PDict [(''jsonrpc'', PStr ''2.0''),
            (''id'', PNone),
            (''error'', PDict [(''code'', PInt (- 32700)),
                               (''message'', PStr (''Parse error: '' @ exc_str e))])]"

text \<open>
  \<^verbatim>\<open>run\<close> on the outcomes of the successive calls of \<^verbatim>\<open>sys.stdin.readline()\<close>: a
  call returns a line (\<open>Inr\<close>; the empty string is the end of the input) or raises
  (\<open>Inl\<close>: \<^verbatim>\<open>UnicodeDecodeError\<close> when the bytes read are not text). The call stands
  inside the \<^verbatim>\<open>try\<close>, so what it raises is answered like a line that does not decode.
  The result is the lines printed, in order, and the world the handlers leave behind.
\<close>

fun run ::
  "pylib \<Rightarrow> 'w mcp_server \<Rightarrow> (pyexception + string) list \<Rightarrow> 'w \<Rightarrow> string list \<times> 'w" where
  "run lib srv [] w = ([], w)"
| "run lib srv (Inl e # rest) w =
     (case run lib srv rest w of
        (out, w'') \<Rightarrow> (json_dumps lib None (parse_error_response e) # out, w''))"
| "run lib srv (Inr line # rest) w =
     (if line = [] then ([], w)
      else
        (case json_loads lib line of
           Inl e \<Rightarrow>
             (case run lib srv rest w of
                (out, w'') \<Rightarrow> (json_dumps lib None (parse_error_response e) # out, w''))
         | Inr request \<Rightarrow>
             (case handle_request lib srv request w of
                (Inl e, w') \<Rightarrow>
                  (case run lib srv rest w' of
                     (out, w'') \<Rightarrow> (json_dumps lib None (parse_error_response e) # out, w''))
              | (Inr response, w') \<Rightarrow>
                  (case run lib srv rest w' of
                     (out, w'') \<Rightarrow> (json_dumps lib None response # out, w'')))))"

section \<open>Reading envelopes\<close>

text \<open>The value under a path of keys in nested dicts, for stating what an envelope holds.\<close>

fun at_path :: "string list \<Rightarrow> pyval \<Rightarrow> pyval option" where
  "at_path [] v = Some v"
| "at_path (k # ks) (PDict d) = (case map_of d k of None \<Rightarrow> None | Some v \<Rightarrow> at_path ks v)"
| "at_path (k # ks) v = None"

text \<open>
  A response envelope: \<open>jsonrpc\<close>, \<open>id\<close> and exactly one of \<open>result\<close> and
  \<open>error\<close>, the error with an integer \<open>code\<close> and a string \<open>message\<close>.
\<close>

fun response_envelope :: "pyval \<Rightarrow> bool" where
  "response_envelope (PDict [(k1, PStr v), (k2, i), (k3, body)]) =
     (k1 = ''jsonrpc'' \<and> v = ''2.0'' \<and> k2 = ''id'' \<and>
      (k3 = ''result'' \<or>
       (k3 = ''error'' \<and>
        (case body of
           PDict [(c, PInt code), (m, PStr message)] \<Rightarrow> c = ''code'' \<and> m = ''message''
         | _ \<Rightarrow> False))))"
| "response_envelope v = False"


section \<open>JSON texts\<close>

text \<open>
  What a valid JSON text is, after RFC 8259: optional whitespace, one value, optional
  whitespace. A value is an object, an array, a string, a number or one of the literals
  \<^verbatim>\<open>true\<close>, \<^verbatim>\<open>false\<close> and \<^verbatim>\<open>null\<close>. The text is read from left to right by an automaton
  with a stack of the arrays and objects that are open; \<open>In_string True\<close> is the string
  of a member name, \<open>In_hex k n\<close> expects \<open>n\<close> more hexadecimal digits of a
  \<^verbatim>\<open>\u\<close> escape, \<open>In_literal r\<close> the rest \<open>r\<close> of a literal.
\<close>

datatype json_context = In_array | In_object

datatype json_state =
    Value
  | Value_or_close
  | Key_or_close
  | Key
  | Colon
  | After_value
  | In_string bool
  | In_escape bool
  | In_hex bool nat
  | In_literal string
  | Num_minus
  | Num_zero
  | Num_int
  | Num_dot
  | Num_frac
  | Num_e
  | Num_esign
  | Num_exp

definition json_ws :: "char \<Rightarrow> bool" where
  "json_ws c = (c = CHR 0x20 \<or> c = CHR 0x09 \<or> c = CHR 0x0A \<or> c = CHR 0x0D)"

definition json_digit :: "char \<Rightarrow> bool" where
  "json_digit c = (c \<in> set ''0123456789'')"

definition json_hex :: "char \<Rightarrow> bool" where
  "json_hex c = (c \<in> set ''0123456789abcdefABCDEF'')"

text \<open>The first character of a value.\<close>

definition start_value ::
  "json_context list \<Rightarrow> char \<Rightarrow> (json_state \<times> json_context list) option" where
  "start_value stack c =
     (if c = CHR ''{'' then Some (Key_or_close, In_object # stack)
      else if c = CHR ''['' then Some (Value_or_close, In_array # stack)
      else if c = CHR 0x22 then Some (In_string False, stack)
      else if c = CHR ''-'' then Some (Num_minus, stack)
      else if c = CHR ''0'' then Some (Num_zero, stack)
      else if json_digit c then Some (Num_int, stack)
      else if c = CHR ''t'' then Some (In_literal ''rue'', stack)
      else if c = CHR ''f'' then Some (In_literal ''alse'', stack)
      else if c = CHR ''n'' then Some (In_literal ''ull'', stack)
      else None)"

text \<open>The character that follows a complete value.\<close>

definition after_value ::
  "json_context list \<Rightarrow> char \<Rightarrow> (json_state \<times> json_context list) option" where
  "after_value stack c =
     (if json_ws c then Some (After_value, stack)
      else if c = CHR '','' then
        (case stack of
           [] \<Rightarrow> None
         | In_array # rest \<Rightarrow> Some (Value, stack)
         | In_object # rest \<Rightarrow> Some (Key, stack))
      else if c = CHR '']'' then
        (case stack of In_array # rest \<Rightarrow> Some (After_value, rest) | _ \<Rightarrow> None)
      else if c = CHR ''}'' then
        (case stack of In_object # rest \<Rightarrow> Some (After_value, rest) | _ \<Rightarrow> None)
      else None)"

fun json_step ::
  "json_state \<Rightarrow> json_context list \<Rightarrow> char \<Rightarrow> (json_state \<times> json_context list) option" where
  "json_step Value stack c =
     (if json_ws c then Some (Value, stack) else start_value stack c)"
| "json_step Value_or_close stack c =
     (if json_ws c then Some (Value_or_close, stack)
      else if c = CHR '']'' then
        (case stack of In_array # rest \<Rightarrow> Some (After_value, rest) | _ \<Rightarrow> None)
      else start_value stack c)"
| "json_step Key_or_close stack c =
     (if json_ws c then Some (Key_or_close, stack)
      else if c = CHR ''}'' then
        (case stack of In_object # rest \<Rightarrow> Some (After_value, rest) | _ \<Rightarrow> None)
      else if c = CHR 0x22 then Some (In_string True, stack)
      else None)"
| "json_step Key stack c =
     (if json_ws c then Some (Key, stack)
      else if c = CHR 0x22 then Some (In_string True, stack)
      else None)"
| "json_step Colon stack c =
     (if json_ws c then Some (Colon, stack)
      else if c = CHR '':'' then Some (Value, stack)
      else None)"
| "json_step After_value stack c = after_value stack c"
| "json_step (In_string k) stack c =
     (if c = CHR 0x22 then Some (if k then Colon else After_value, stack)
      else if c = CHR 0x5C then Some (In_escape k, stack)
      else if (of_char c :: nat) < 32 then None
      else Some (In_string k, stack))"
| "json_step (In_escape k) stack c =
     (if c = CHR ''u'' then Some (In_hex k 4, stack)
      else if c = CHR 0x22 \<or> c = CHR 0x5C \<or> c \<in> set ''/bfnrt'' then Some (In_string k, stack)
      else None)"
| "json_step (In_hex k n) stack c =
     (if json_hex c then Some (if n \<le> 1 then In_string k else In_hex k (n - 1), stack)
      else None)"
| "json_step (In_literal r) stack c =
     (case r of
        [] \<Rightarrow> None
      | x # xs \<Rightarrow>
          if c = x then Some (if xs = [] then After_value else In_literal xs, stack)
          else None)"
| "json_step Num_minus stack c =
     (if c = CHR ''0'' then Some (Num_zero, stack)
      else if json_digit c then Some (Num_int, stack)
      else None)"
| "json_step Num_zero stack c =
     (if c = CHR ''.'' then Some (Num_dot, stack)
      else if c = CHR ''e'' \<or> c = CHR ''E'' then Some (Num_e, stack)
      else after_value stack c)"
| "json_step Num_int stack c =
     (if json_digit c then Some (Num_int, stack)
      else if c = CHR ''.'' then Some (Num_dot, stack)
      else if c = CHR ''e'' \<or> c = CHR ''E'' then Some (Num_e, stack)
      else after_value stack c)"
| "json_step Num_dot stack c = (if json_digit c then Some (Num_frac, stack) else None)"
| "json_step Num_frac stack c =
     (if json_digit c then Some (Num_frac, stack)
      else if c = CHR ''e'' \<or> c = CHR ''E'' then Some (Num_e, stack)
      else after_value stack c)"
| "json_step Num_e stack c =
     (if c = CHR ''+'' \<or> c = CHR ''-'' then Some (Num_esign, stack)
      else if json_digit c then Some (Num_exp, stack)
      else None)"
| "json_step Num_esign stack c = (if json_digit c then Some (Num_exp, stack) else None)"
| "json_step Num_exp stack c =
     (if json_digit c then Some (Num_exp, stack) else after_value stack c)"

fun json_scan ::
  "json_state \<Rightarrow> json_context list \<Rightarrow> string \<Rightarrow> (json_state \<times> json_context list) option" where
  "json_scan st stack [] = Some (st, stack)"
| "json_scan st stack (c # cs) =
     (case json_step st stack c of
        None \<Rightarrow> None
      | Some (st', stack') \<Rightarrow> json_scan st' stack' cs)"

text \<open>
  The text is valid when the automaton ends with no array or object open, after a
  complete value: a number is complete where its digits end.
\<close>

definition valid_json :: "string \<Rightarrow> bool" where
  "valid_json s =
     (case json_scan Value [] s of
        Some (st, []) \<Rightarrow> st \<in> {After_value, Num_zero, Num_int, Num_frac, Num_exp}
      | _ \<Rightarrow> False)"

section \<open>An example server\<close>

text \<open>
  The scenario of the specification, a tool \<^verbatim>\<open>add(a: int, b: int = 0)\<close> returning
  \<^verbatim>\<open>a + b\<close>; the tool \<^verbatim>\<open>get_cpu_usage(interval: float = 1.0)\<close> of the repository,
  whose call of \<^verbatim>\<open>psutil.cpu_percent\<close> raises \<^verbatim>\<open>ValueError\<close> on a negative interval (the
  stand-in below answers the integer intervals, of which the examples use \<open>-1\<close>, whose
  message it gives); the resource \<^verbatim>\<open>system://status\<close>; and a resource
  \<^verbatim>\<open>system://sensors\<close> whose handler raises. The module is run as a script, so its
  functions belong to \<^verbatim>\<open>__main__\<close>. The world is the number of handler calls made so
  far.
\<close>

definition add_func :: "nat pyfunc" where
  "add_func =
     \<lparr>func_name = ''add'', func_qualname = ''__main__.add'',
      func_doc = Some ''Add two numbers.'',
      func_sig = [\<lparr>param_name = ''a'', param_annotation = Class_int, param_default = None\<rparr>,
                  \<lparr>param_name = ''b'', param_annotation = Class_int,
                   param_default = Some (PInt 0)\<rparr>],
      func_call = (\<lambda>kw w.
        (case (map_of kw ''a'', dict_get kw ''b'' (PInt 0)) of
           (Some (PInt a), PInt b) \<Rightarrow> Inr (PInt (a + b))
         | _ \<Rightarrow> Inl (PyException ''TypeError'' ''add() got unexpected arguments''),
         Suc w))\<rparr>"

definition cpu_func :: "nat pyfunc" where
  "cpu_func =
     \<lparr>func_name = ''get_cpu_usage'', func_qualname = ''__main__.get_cpu_usage'',
      func_doc = Some ''Get current CPU usage statistics.'',
      func_sig = [\<lparr>param_name = ''interval'', param_annotation = Class_float,
                   param_default = Some (PFloat 0x3FF0000000000000)\<rparr>],
      func_call = (\<lambda>kw w.
        (case map_of kw ''interval'' of
           Some (PInt i) \<Rightarrow>
             (if i < 0
              then Inl (PyException ''ValueError'' ''interval is not positive (got -1)'')
              else Inr (PDict [(''total_percent'', PFloat 0)]))
         | _ \<Rightarrow> Inr (PDict [(''total_percent'', PFloat 0)]),
         Suc w))\<rparr>"

definition sensors_func :: "nat pyfunc" where
  "sensors_func =
     \<lparr>func_name = ''get_sensors'', func_qualname = ''__main__.get_sensors'',
      func_doc = None, func_sig = [],
      func_call = (\<lambda>kw w. (Inl (PyException ''OSError'' ''sensors not available''), Suc w))\<rparr>"

definition status_func :: "nat pyfunc" where
  "status_func =
     \<lparr>func_name = ''get_system_status'', func_qualname = ''__main__.get_system_status'',
      func_doc = None, func_sig = [],
      func_call = (\<lambda>kw w. (Inr (PStr ''System Status Overview''), Suc w))\<rparr>"


text \<open>The registrations of the example, and the server they build.\<close>

definition example_registrations :: "nat registration list" where
  "example_registrations =
     [Register_tool add_func, Register_tool cpu_func,
      Register_resource ''system://status'' status_func,
      Register_resource ''system://sensors'' sensors_func]"

definition example_server :: "nat mcp_server" where
  "example_server =
     \<lparr>name = ''SystemMonitor'',
      tools =
        [(''add'',
          PDict [(''name'', PStr ''add''),
                 (''description'', PStr ''Add two numbers.''),
                 (''inputSchema'',
                    PDict [(''type'', PStr ''object''),
                           (''properties'',
                              PDict [(''a'', PDict [(''type'', PStr ''integer'')]),
                                     (''b'', PDict [(''type'', PStr ''integer'')])]),
                           (''required'', PList [PStr ''a''])])]),
         (''get_cpu_usage'',
          PDict [(''name'', PStr ''get_cpu_usage''),
                 (''description'', PStr ''Get current CPU usage statistics.''),
                 (''inputSchema'',
                    PDict [(''type'', PStr ''object''),
                           (''properties'',
                              PDict [(''interval'', PDict [(''type'', PStr ''number'')])]),
                           (''required'', PList [])])])],
      tool_functions = [(''add'', add_func), (''get_cpu_usage'', cpu_func)],
      resources = [(''system://status'', status_func), (''system://sensors'', sensors_func)]\<rparr>"

text \<open>
  Five request lines and the values they decode to. The last one is not a JSON text,
  \<^verbatim>\<open>NaN\<close> being no JSON value, and \<^verbatim>\<open>json.loads\<close> decodes it all the same, to the
  float that is not a number.
\<close>

definition add_line :: string where
  \<open>add_line = ''{"jsonrpc": "2.0", "id": 7, "method": "tools/call", "params": {"name": "add", "arguments": {"a": 5}}}''\<close>

definition add_request :: pyval where
  "add_request =
     PDict [(''jsonrpc'', PStr ''2.0''), (''id'', PInt 7), (''method'', PStr ''tools/call''),
            (''params'', PDict [(''name'', PStr ''add''),
                                (''arguments'', PDict [(''a'', PInt 5)])])]"

definition cpu_line :: string where
  \<open>cpu_line = ''{"jsonrpc": "2.0", "id": "c1", "method": "tools/call", "params": {"name": "get_cpu_usage", "arguments": {"interval": -1}}}''\<close>

definition cpu_request :: pyval where
  "cpu_request =
     PDict [(''jsonrpc'', PStr ''2.0''), (''id'', PStr ''c1''), (''method'', PStr ''tools/call''),
            (''params'', PDict [(''name'', PStr ''get_cpu_usage''),
                                (''arguments'', PDict [(''interval'', PInt (- 1))])])]"

definition status_line :: string where
  \<open>status_line = ''{"jsonrpc": "2.0", "id": 8, "method": "resources/read", "params": {"uri": "system://status"}}''\<close>

definition status_request :: pyval where
  "status_request =
     PDict [(''jsonrpc'', PStr ''2.0''), (''id'', PInt 8), (''method'', PStr ''resources/read''),
            (''params'', PDict [(''uri'', PStr ''system://status'')])]"

definition read_sensors_line :: string where
  \<open>read_sensors_line = ''{"jsonrpc": "2.0", "id": 9, "method": "resources/read", "params": {"uri": "system://sensors"}}''\<close>

definition read_sensors_request :: pyval where
  "read_sensors_request =
     PDict [(''jsonrpc'', PStr ''2.0''), (''id'', PInt 9), (''method'', PStr ''resources/read''),
            (''params'', PDict [(''uri'', PStr ''system://sensors'')])]"

definition nan_line :: string where
  \<open>nan_line = ''{"jsonrpc": "2.0", "id": 1, "method": "initialize", "params": NaN}''\<close>

definition nan_request :: pyval where
  "nan_request =
     PDict [(''jsonrpc'', PStr ''2.0''), (''id'', PInt 1), (''method'', PStr ''initialize''),
            (''params'', PFloat 0x7FF8000000000000)]"

text \<open>
  A stand-in for the library: this \<open>json_loads\<close> decodes the five lines above and the
  line \<^verbatim>\<open>[]\<close> and rejects every other line; this \<open>json_dumps\<close> prints the integer result
  of the example and otherwise only the error code of an envelope.
\<close>

definition example_lib :: pylib where
  "example_lib =
     \<lparr>json_loads = (\<lambda>line.
        if line = add_line then Inr add_request
        else if line = cpu_line then Inr cpu_request
        else if line = status_line then Inr status_request
        else if line = read_sensors_line then Inr read_sensors_request
        else if line = nan_line then Inr nan_request
        else if line = ''[]'' then Inr (PList [])
        else Inl (PyException ''JSONDecodeError'' ''Expecting value: line 1 column 1 (char 0)'')),
      json_dumps = (\<lambda>indent v.
        case v of
          PInt i \<Rightarrow> (if i = 5 then ''5'' else ''<int>'')
        | _ \<Rightarrow>
          (case at_path [''error'', ''code''] v of
             Some (PInt c) \<Rightarrow>
               (if c = - 32700 then ''<error -32700>''
                else if c = - 32603 then ''<error -32603>''
                else ''<error>'')
           | _ \<Rightarrow> ''<result>'')),
      py_repr = (\<lambda>v. ''<repr>'')\<rparr>"

section \<open>Schema synthesis: what the loop computes\<close>







lemma type_map_get_hashable:
  "unhashable_in key = None \<Longrightarrow>
     type_map_get key dflt = Inr (case map_of type_map key of Some t \<Rightarrow> t | None \<Rightarrow> dflt)"
  by (simp add: type_map_get_def)

lemma type_map_get_unhashable:
  "unhashable_in key = Some tn \<Longrightarrow>
     type_map_get key dflt = Inl (PyException ''TypeError'' (''unhashable type: '' @ quoted tn))"
  by (simp add: type_map_get_def)






section \<open>Registration keeps the two tool maps aligned\<close>

lemma register_keys:
  "register srv r = Inr srv' \<Longrightarrow> map fst (tools srv) = map fst (tool_functions srv) \<Longrightarrow>
     map fst (tools srv') = map fst (tool_functions srv')"
  by (cases r) (auto simp: tool_def resource_def update_keys split: sum.splits)

lemma register_all_keys:
  "register_all srv regs = Inr srv' \<Longrightarrow> map fst (tools srv) = map fst (tool_functions srv) \<Longrightarrow>
     map fst (tools srv') = map fst (tool_functions srv')"
proof (induction regs arbitrary: srv)
  case Nil
  then show ?case by simp
next
  case (Cons r regs)
  from Cons.prems(1) obtain srv'' where step: "register srv r = Inr srv''"
    and rest: "register_all srv'' regs = Inr srv'"
    by (auto split: sum.splits)
  from Cons.IH [OF rest register_keys [OF step Cons.prems(2)]] show ?case .
qed

lemma registered_keys:
  "registered nm regs = Inr srv \<Longrightarrow> map fst (tools srv) = map fst (tool_functions srv)"
  unfolding registered_def by (erule register_all_keys) (simp add: MCPServer_def)

lemma register_lookup:
  "register srv r = Inr srv' \<Longrightarrow>
   map_of (tool_functions srv') n =
     (case r of
        Register_tool func \<Rightarrow>
          if func_name func = n then Some func else map_of (tool_functions srv) n
      | Register_resource uri func \<Rightarrow> map_of (tool_functions srv) n)"
  by (cases r) (auto simp: tool_def resource_def update_conv' split: sum.splits)

lemma register_all_lookup:
  "register_all srv regs = Inr srv' \<Longrightarrow>
   map_of (tool_functions srv') n =
     (if tool_registrations n regs = [] then map_of (tool_functions srv) n
      else Some (last (tool_registrations n regs)))"
proof (induction regs arbitrary: srv)
  case Nil
  then show ?case by simp
next
  case (Cons r regs)
  from Cons.prems obtain srv'' where step: "register srv r = Inr srv''"
    and rest: "register_all srv'' regs = Inr srv'"
    by (auto split: sum.splits)
  show ?case
  proof (cases r)
    case (Register_tool func)
    with Cons.IH [OF rest] register_lookup [OF step, of n] show ?thesis by simp
  next
    case (Register_resource uri func)
    with Cons.IH [OF rest] register_lookup [OF step, of n] show ?thesis by simp
  qed
qed

lemma registered_lookup:
  "registered nm regs = Inr srv \<Longrightarrow>
   map_of (tool_functions srv) n =
     (if tool_registrations n regs = [] then None
      else Some (last (tool_registrations n regs)))"
  by (simp add: registered_def register_all_lookup [of "MCPServer nm" regs srv n] MCPServer_def)

lemma get_schema_add_func:
  "get_schema add_func =
     Inr (PDict [(''type'', PStr ''object''),
                 (''properties'',
                    PDict [(''a'', PDict [(''type'', PStr ''integer'')]),
                           (''b'', PDict [(''type'', PStr ''integer'')])]),
                 (''required'', PList [PStr ''a''])])"
  by (simp add: add_func_def get_schema_def python_type_to_json_type_def param_type_def
        type_map_get_def type_map_def)

lemma get_schema_cpu_func:
  "get_schema cpu_func =
     Inr (PDict [(''type'', PStr ''object''),
                 (''properties'', PDict [(''interval'', PDict [(''type'', PStr ''number'')])]),
                 (''required'', PList [])])"
  by (simp add: cpu_func_def get_schema_def python_type_to_json_type_def param_type_def
        type_map_get_def type_map_def)

text \<open>The example server is the one its registrations build.\<close>

lemma example_server_registered:
  "registered ''SystemMonitor'' example_registrations = Inr example_server"
proof -
  have names: "func_name add_func = ''add''" "func_name cpu_func = ''get_cpu_usage''"
    "func_doc add_func = Some ''Add two numbers.''"
    "func_doc cpu_func = Some ''Get current CPU usage statistics.''"
    by (simp_all add: add_func_def cpu_func_def)
  show ?thesis
    by (simp add: registered_def example_registrations_def example_server_def MCPServer_def
          tool_def resource_def get_schema_add_func get_schema_cpu_func names doc_or_empty_def)
qed

lemma example_server_fields:
  "map fst (tools example_server) = [''add'', ''get_cpu_usage'']"
  "tool_functions example_server = [(''add'', add_func), (''get_cpu_usage'', cpu_func)]"
  "resources example_server =
     [(''system://status'', status_func), (''system://sensors'', sensors_func)]"
  by (simp_all add: example_server_def)

section \<open>Dispatch: what each route returns\<close>

lemma handle_request_dict:
  "handle_request lib srv (PDict request) w =
     (case route lib srv (dict_get request ''method'' PNone)
             (dict_get request ''params'' (PDict [])) (dict_get request ''id'' PNone) w of
        (Inl e, w') \<Rightarrow>
          (Inr (error_response (dict_get request ''id'' PNone) (- 32603) (exc_str e)), w')
      | (Inr response, w') \<Rightarrow> (Inr response, w'))"
  by (simp add: handle_request_def py_get_def)

lemma error_response_envelope: "response_envelope (error_response request_id code message)"
  by (simp add: error_response_def)

lemma error_response_id: "at_path [''id''] (error_response request_id code message) = Some request_id"
  by (simp add: error_response_def)

lemma error_response_code:
  "at_path [''error'', ''code''] (error_response request_id code message) = Some (PInt code)"
  by (simp add: error_response_def)

lemma error_response_message:
  "at_path [''error'', ''message''] (error_response request_id code message) = Some (PStr message)"
  by (simp add: error_response_def)

lemma error_response_no_result:
  "at_path [''result''] (error_response request_id code message) = None"
  by (simp add: error_response_def)

lemma py_in_hashable:
  "hashable k \<Longrightarrow> py_in k d = Inr (\<exists>s. k = PStr s \<and> s \<in> fst ` set d)"
  by (cases k) (simp_all add: py_in_def)

lemma py_in_True:
  "py_in k d = Inr True \<longleftrightarrow> (\<exists>s. k = PStr s \<and> s \<in> fst ` set d)"
  by (cases k) (simp_all add: py_in_def)

lemma py_getitem_str:
  "py_getitem lib d (PStr s) =
     (case map_of d s of
        Some v \<Rightarrow> Inr v
      | None \<Rightarrow> Inl (PyException ''KeyError'' (py_repr lib (PStr s))))"
  by (simp add: py_getitem_def)

lemma map_of_Some_key: "map_of d k = Some v \<Longrightarrow> k \<in> fst ` set d"
  by (metis domI dom_map_of_conv_image_fst)

lemma handle_tool_call_unknown:
  assumes "hashable tool_name" and "dict_get params ''name'' PNone = tool_name"
    and "\<And>n. tool_name = PStr n \<Longrightarrow> n \<notin> fst ` set (tools srv)"
  shows "handle_tool_call lib srv (PDict params) request_id w =
           (Inr (error_response request_id (- 32602)
              (''Unknown tool: '' @ py_str lib tool_name)), w)"
  using assms by (auto simp: handle_tool_call_def py_get_def py_in_hashable)

lemma handle_tool_call_unhashable:
  assumes "\<not> hashable tool_name" and "dict_get params ''name'' PNone = tool_name"
  shows "handle_tool_call lib srv (PDict params) request_id w =
           (Inl (unhashable_type tool_name), w)"
  using assms by (simp add: handle_tool_call_def py_get_def py_in_def)

lemma handle_tool_call_known:
  assumes "dict_get params ''name'' PNone = PStr n" and "n \<in> fst ` set (tools srv)"
    and "map_of (tool_functions srv) n = Some func"
  shows "handle_tool_call lib srv (PDict params) request_id w =
           (case call_kwargs func (dict_get params ''arguments'' (PDict [])) w of
              (Inl e, w') \<Rightarrow> (Inl e, w')
            | (Inr result, w') \<Rightarrow>
                (Inr (PDict [(''jsonrpc'', PStr ''2.0''),
                             (''id'', request_id),
                             (''result'',
                                PDict [(''content'',
                                   PList [PDict [(''type'', PStr ''text''),
                                     (''text'', PStr (json_dumps lib (Some 2) result))]])])]),
                 w'))"
  using assms by (simp add: handle_tool_call_def py_get_def py_in_def py_getitem_str)

lemma handle_resource_read_unknown:
  assumes "hashable uri" and "dict_get params ''uri'' PNone = uri"
    and "\<And>u. uri = PStr u \<Longrightarrow> u \<notin> fst ` set (resources srv)"
  shows "handle_resource_read lib srv (PDict params) request_id w =
           (Inr (error_response request_id (- 32602)
              (''Unknown resource: '' @ py_str lib uri)), w)"
  using assms by (auto simp: handle_resource_read_def py_get_def py_in_hashable)

lemma handle_resource_read_unhashable:
  assumes "\<not> hashable uri" and "dict_get params ''uri'' PNone = uri"
  shows "handle_resource_read lib srv (PDict params) request_id w =
           (Inl (unhashable_type uri), w)"
  using assms by (simp add: handle_resource_read_def py_get_def py_in_def)

lemma handle_resource_read_known:
  assumes "dict_get params ''uri'' PNone = PStr u"
    and "map_of (resources srv) u = Some func"
  shows "handle_resource_read lib srv (PDict params) request_id w =
           (case func_call func [] w of
              (Inl e, w') \<Rightarrow> (Inl e, w')
            | (Inr content, w') \<Rightarrow>
                (Inr (PDict [(''jsonrpc'', PStr ''2.0''),
                             (''id'', request_id),
                             (''result'',
                                PDict [(''contents'',
                                   PList [PDict [(''uri'', PStr u),
                                                 (''mimeType'', PStr ''text/plain''),
                                                 (''text'', content)]])])]),
                 w'))"
  using assms map_of_Some_key [OF assms(2)]
  by (simp add: handle_resource_read_def py_get_def py_in_def py_getitem_str)

lemma route_tools_call:
  "route lib srv (PStr ''tools/call'') params request_id w =
     handle_tool_call lib srv params request_id w"
  by (simp add: route_def)

lemma route_resources_read:
  "route lib srv (PStr ''resources/read'') params request_id w =
     handle_resource_read lib srv params request_id w"
  by (simp add: route_def)

lemma handle_tool_call_envelope:
  "handle_tool_call lib srv params request_id w = (Inr response, w') \<Longrightarrow>
     response_envelope response \<and> at_path [''id''] response = Some request_id"
  by (auto simp: handle_tool_call_def error_response_envelope error_response_id
           split: sum.splits prod.splits if_splits)

lemma handle_resource_read_envelope:
  "handle_resource_read lib srv params request_id w = (Inr response, w') \<Longrightarrow>
     response_envelope response \<and> at_path [''id''] response = Some request_id"
  by (auto simp: handle_resource_read_def error_response_envelope error_response_id
           split: sum.splits prod.splits if_splits)

lemma handle_resources_list_envelope:
  "handle_resources_list srv request_id = Inr response \<Longrightarrow>
     response_envelope response \<and> at_path [''id''] response = Some request_id"
  by (auto simp: handle_resources_list_def split: sum.splits)

lemma route_envelope:
  "route lib srv method params request_id w = (Inr response, w') \<Longrightarrow>
     response_envelope response \<and> at_path [''id''] response = Some request_id"
  unfolding route_def
  by (auto simp: handle_initialize_def handle_tools_list_def error_response_envelope
                 error_response_id
           dest: handle_tool_call_envelope handle_resource_read_envelope
                 handle_resources_list_envelope
           split: if_splits)

lemma handle_request_total:
  "\<exists>response w'. handle_request lib srv (PDict request) w = (Inr response, w') \<and>
     response_envelope response \<and>
     at_path [''id''] response = Some (dict_get request ''id'' PNone)"
proof -
  let ?rid = "dict_get request ''id'' PNone"
  obtain r w' where r:
    "route lib srv (dict_get request ''method'' PNone)
       (dict_get request ''params'' (PDict [])) ?rid w = (r, w')"
    by (cases "route lib srv (dict_get request ''method'' PNone)
       (dict_get request ''params'' (PDict [])) ?rid w")
  show ?thesis
  proof (cases r)
    case (Inl e)
    with r show ?thesis
      by (simp add: handle_request_dict error_response_envelope error_response_id)
  next
    case (Inr response)
    with r route_envelope [of lib srv _ _ ?rid w response w'] show ?thesis
      by (simp add: handle_request_dict)
  qed
qed

text \<open>
  Claim C10. After any sequence of registrations on a new server that runs to its end (a
  decoration whose schema synthesis raises ends the program before any request is read),
  tools registered again under a name they already have included, the descriptor map
  \<open>tools\<close> and the handler map \<open>tool_functions\<close> have the same keys. So whenever the membership test of
  \<^verbatim>\<open>_handle_tool_call\<close> passes, the name is a string, the lookup in \<open>tool_functions\<close>
  succeeds and gives the function registered last under that name, and the call is a call
  of that function.
\<close>

theorem tool_registries_agree:
  assumes "registered nm regs = Inr srv"
  shows
  "fst ` set (tools srv) = fst ` set (tool_functions srv) \<and>
   (dict_get params ''name'' PNone = tool_name \<and>
    py_in tool_name (tools srv) = Inr True \<longrightarrow>
      (\<exists>n. tool_name = PStr n \<and> tool_registrations n regs \<noteq> [] \<and>
         py_getitem lib (tool_functions srv) tool_name =
           Inr (last (tool_registrations n regs)) \<and>
         handle_tool_call lib srv (PDict params) request_id w =
           (case call_kwargs (last (tool_registrations n regs))
                   (dict_get params ''arguments'' (PDict [])) w of
              (Inl e, w') \<Rightarrow> (Inl e, w')
            | (Inr result, w') \<Rightarrow>
                (Inr (PDict [(''jsonrpc'', PStr ''2.0''),
                             (''id'', request_id),
                             (''result'',
                                PDict [(''content'',
                                   PList [PDict [(''type'', PStr ''text''),
                                     (''text'', PStr (json_dumps lib (Some 2) result))]])])]),
                 w'))))"
proof (intro conjI impI)
  have keys: "fst ` set (tools srv) = fst ` set (tool_functions srv)"
    using registered_keys [OF assms] by (metis set_map)
  show "fst ` set (tools srv) = fst ` set (tool_functions srv)" by (rule keys)
  assume a: "dict_get params ''name'' PNone = tool_name \<and> py_in tool_name (tools srv) = Inr True"
  then obtain n where n: "tool_name = PStr n" "n \<in> fst ` set (tools srv)"
    by (auto simp: py_in_True)
  with keys have "n \<in> fst ` set (tool_functions srv)" by simp
  then have "map_of (tool_functions srv) n \<noteq> None"
    by (simp add: map_of_eq_None_iff)
  then have regs: "tool_registrations n regs \<noteq> []"
    and found: "map_of (tool_functions srv) n = Some (last (tool_registrations n regs))"
    by (auto simp: registered_lookup [OF assms] split: if_splits)
  from found n have "py_getitem lib (tool_functions srv) tool_name =
      Inr (last (tool_registrations n regs))"
    by (simp add: py_getitem_str)
  moreover from a n have "dict_get params ''name'' PNone = PStr n" by simp
  note handle_tool_call_known [OF this n(2) found, of lib request_id w]
  ultimately show "\<exists>n. tool_name = PStr n \<and> tool_registrations n regs \<noteq> [] \<and>
         py_getitem lib (tool_functions srv) tool_name =
           Inr (last (tool_registrations n regs)) \<and>
         handle_tool_call lib srv (PDict params) request_id w =
           (case call_kwargs (last (tool_registrations n regs))
                   (dict_get params ''arguments'' (PDict [])) w of
              (Inl e, w') \<Rightarrow> (Inl e, w')
            | (Inr result, w') \<Rightarrow>
                (Inr (PDict [(''jsonrpc'', PStr ''2.0''),
                             (''id'', request_id),
                             (''result'',
                                PDict [(''content'',
                                   PList [PDict [(''type'', PStr ''text''),
                                     (''text'', PStr (json_dumps lib (Some 2) result))]])])]),
                 w'))"
    using n(1) regs by blast
qed

text \<open>
  The witness registers \<^verbatim>\<open>add\<close> twice, first with the handler of \<^verbatim>\<open>get_cpu_usage\<close>
  under the name \<^verbatim>\<open>add\<close>: the call reaches the second registration.
\<close>

theorem tool_registries_agree_witness:
  "\<exists>srv.
     registered ''SystemMonitor''
       [Register_tool (cpu_func\<lparr>func_name := ''add''\<rparr>), Register_tool add_func] = Inr srv \<and>
     dict_get [(''name'', PStr ''add''), (''arguments'', PDict [(''a'', PInt 5)])] ''name'' PNone
       = PStr ''add'' \<and>
     py_in (PStr ''add'') (tools srv) = Inr True \<and>
     map fst (tools srv) = [''add''] \<and>
     map fst (tool_functions srv) = [''add''] \<and>
     handle_tool_call example_lib srv
       (PDict [(''name'', PStr ''add''), (''arguments'', PDict [(''a'', PInt 5)])]) (PInt 7) 0 =
       (Inr (PDict [(''jsonrpc'', PStr ''2.0''),
                    (''id'', PInt 7),
                    (''result'',
                       PDict [(''content'',
                          PList [PDict [(''type'', PStr ''text''), (''text'', PStr ''5'')]])])]),
        1)"
proof -
  have "get_schema (cpu_func\<lparr>func_name := ''add''\<rparr>) = get_schema cpu_func"
    by (simp add: get_schema_def)
  then obtain srv where srv:
    "registered ''SystemMonitor''
       [Register_tool (cpu_func\<lparr>func_name := ''add''\<rparr>), Register_tool add_func] = Inr srv"
    by (simp add: registered_def tool_def get_schema_add_func get_schema_cpu_func)
  then have fields: "map fst (tools srv) = [''add'']" "map fst (tool_functions srv) = [''add'']"
    by (auto simp: registered_def tool_def get_schema_add_func get_schema_cpu_func
          get_schema_def MCPServer_def add_func_def split: sum.splits)
  have call: "call_kwargs add_func (PDict [(''a'', PInt 5)]) 0 = (Inr (PInt 5), 1)"
    by (simp add: call_kwargs_def add_func_def dict_get_def)
  have dumps: "json_dumps example_lib (Some 2) (PInt 5) = ''5''"
    by (simp add: example_lib_def)
  have name: "func_name add_func = ''add''"
    by (simp add: add_func_def)
  from tool_registries_agree
    [OF srv, of "[(''name'', PStr ''add''), (''arguments'', PDict [(''a'', PInt 5)])]"
        "PStr ''add''" example_lib "PInt 7" 0]
  have "handle_tool_call example_lib srv
       (PDict [(''name'', PStr ''add''), (''arguments'', PDict [(''a'', PInt 5)])]) (PInt 7) 0 =
       (Inr (PDict [(''jsonrpc'', PStr ''2.0''),
                    (''id'', PInt 7),
                    (''result'',
                       PDict [(''content'',
                          PList [PDict [(''type'', PStr ''text''), (''text'', PStr ''5'')]])])]),
        1)"
    using fields call dumps name by (auto simp: py_in_def dict_get_def)
  with srv fields show ?thesis
    by (intro exI [of _ srv]) (simp add: py_in_def dict_get_def)
qed

lemma handle_request_not_dict:
  assumes "\<forall>d. request \<noteq> PDict d"
  shows "handle_request lib srv request w =
     (Inl (PyException ''AttributeError''
        (quoted (type_name request) @ '' object has no attribute '' @ quoted ''get'')), w)"
  using assms by (cases request) (simp_all add: handle_request_def py_get_def)

text \<open>
  Claim C2, as amended. For every decoded JSON object handed to the dispatcher as a
  request, \<^verbatim>\<open>handle_request\<close> returns a response envelope and raises nothing: whatever the
  routed call raises is turned into an envelope first. For a decoded value that is not an
  object (an array, a string, a number, a boolean, null) \<^verbatim>\<open>handle_request\<close> raises
  \<^verbatim>\<open>AttributeError\<close> to its caller, before any handler is called.
\<close>

theorem handle_request_returns_envelope:
  "(\<exists>response w'. handle_request lib srv (PDict request) w = (Inr response, w') \<and>
      response_envelope response) \<and>
   ((\<forall>d. v \<noteq> PDict d) \<longrightarrow>
      (\<exists>e. handle_request lib srv v w = (Inl e, w) \<and> exc_class e = ''AttributeError''))"
proof (intro conjI impI)
  show "\<exists>response w'. handle_request lib srv (PDict request) w = (Inr response, w') \<and>
      response_envelope response"
    using handle_request_total [of lib srv request w] by blast
  assume "\<forall>d. v \<noteq> PDict d"
  then show "\<exists>e. handle_request lib srv v w = (Inl e, w) \<and> exc_class e = ''AttributeError''"
    by (simp add: handle_request_not_dict)
qed

theorem handle_request_returns_envelope_witness:
  "(\<exists>response w'.
      handle_request example_lib example_server
        (PDict [(''jsonrpc'', PStr ''2.0''), (''id'', PStr ''c1''),
                (''method'', PStr ''tools/call''),
                (''params'', PDict [(''name'', PStr ''get_cpu_usage''),
                                    (''arguments'', PDict [(''interval'', PInt (- 1))])])]) 0
        = (Inr response, w') \<and> response_envelope response) \<and>
   (\<forall>d. PStr ''ping'' \<noteq> PDict d) \<and>
   (\<exists>e. handle_request example_lib example_server (PStr ''ping'') 0 = (Inl e, 0) \<and>
      exc_class e = ''AttributeError'')"
  using handle_request_returns_envelope
    [of example_lib example_server
        "[(''jsonrpc'', PStr ''2.0''), (''id'', PStr ''c1''), (''method'', PStr ''tools/call''),
          (''params'', PDict [(''name'', PStr ''get_cpu_usage''),
                              (''arguments'', PDict [(''interval'', PInt (- 1))])])]"
        0 "PStr ''ping''"]
  by simp

text \<open>
  The claim as stated fails: the line \<^verbatim>\<open>[]\<close> is valid JSON and decodes to a list, on
  which \<^verbatim>\<open>request.get("method")\<close>, standing before the \<^verbatim>\<open>try\<close>, raises
  \<^verbatim>\<open>AttributeError\<close>; \<^verbatim>\<open>run\<close> catches it and prints a \<open>-32700\<close> envelope.
\<close>

theorem handle_request_raises_counterexample:
  "json_loads example_lib ''[]'' = Inr (PList []) \<and>
   handle_request example_lib example_server (PList []) 0 =
     (Inl (PyException ''AttributeError''
        (quoted ''list'' @ '' object has no attribute '' @ quoted ''get'')), 0) \<and>
   run example_lib example_server [Inr ''[]''] 0 = ([''<error -32700>''], 0)"
  by (simp add: handle_request_def py_get_def example_lib_def add_line_def cpu_line_def
        status_line_def read_sensors_line_def nan_line_def parse_error_response_def)

text \<open>
  Claim C6. For every request object dispatched, the response carries the request's
  \<open>id\<close> as it is, in a success envelope and in an error envelope alike (the codes
  \<open>-32601\<close>, \<open>-32602\<close> and \<open>-32603\<close> included); a request without an \<open>id\<close> gets
  the \<open>id\<close> null.
\<close>

theorem handle_request_echoes_id:
  "\<exists>response w'.
     handle_request lib srv (PDict request) w = (Inr response, w') \<and>
     at_path [''id''] response = Some (dict_get request ''id'' PNone) \<and>
     (map_of request ''id'' = None \<longrightarrow> at_path [''id''] response = Some PNone) \<and>
     (\<forall>v. map_of request ''id'' = Some v \<longrightarrow> at_path [''id''] response = Some v)"
  using handle_request_total [of lib srv request w] by (auto simp: dict_get_def)

theorem handle_request_echoes_id_witness:
  "map_of [(''jsonrpc'', PStr ''2.0''), (''method'', PStr ''shutdown'')] ''id'' = None \<and>
   handle_request example_lib example_server
     (PDict [(''jsonrpc'', PStr ''2.0''), (''method'', PStr ''shutdown'')]) 0 =
     (Inr (error_response PNone (- 32601) ''Method not found: shutdown''), 0) \<and>
   at_path [''id''] (error_response PNone (- 32601) ''Method not found: shutdown'') = Some PNone \<and>
   map_of [(''jsonrpc'', PStr ''2.0''), (''id'', PStr ''c1''), (''method'', PStr ''tools/call''),
           (''params'', PDict [(''name'', PStr ''get_cpu_usage''),
                               (''arguments'', PDict [(''interval'', PInt (- 1))])])] ''id''
     = Some (PStr ''c1'') \<and>
   (\<exists>response w'.
      handle_request example_lib example_server
        (PDict [(''jsonrpc'', PStr ''2.0''), (''id'', PStr ''c1''),
                (''method'', PStr ''tools/call''),
                (''params'', PDict [(''name'', PStr ''get_cpu_usage''),
                                    (''arguments'', PDict [(''interval'', PInt (- 1))])])]) 0
        = (Inr response, w') \<and>
      at_path [''id''] response = Some (PStr ''c1''))"
  using handle_request_echoes_id
    [of example_lib example_server
        "[(''jsonrpc'', PStr ''2.0''), (''id'', PStr ''c1''), (''method'', PStr ''tools/call''),
          (''params'', PDict [(''name'', PStr ''get_cpu_usage''),
                              (''arguments'', PDict [(''interval'', PInt (- 1))])])]" 0]
  by (simp add: handle_request_dict route_def dict_get_def py_str_def error_response_def)

lemma handle_request_tools_call:
  assumes "dict_get request ''method'' PNone = PStr ''tools/call''"
  shows "handle_request lib srv (PDict request) w =
     (case handle_tool_call lib srv (dict_get request ''params'' (PDict []))
             (dict_get request ''id'' PNone) w of
        (Inl e, w') \<Rightarrow>
          (Inr (error_response (dict_get request ''id'' PNone) (- 32603) (exc_str e)), w')
      | (Inr response, w') \<Rightarrow> (Inr response, w'))"
  using assms by (simp add: handle_request_dict route_tools_call)

lemma handle_request_resources_read:
  assumes "dict_get request ''method'' PNone = PStr ''resources/read''"
  shows "handle_request lib srv (PDict request) w =
     (case handle_resource_read lib srv (dict_get request ''params'' (PDict []))
             (dict_get request ''id'' PNone) w of
        (Inl e, w') \<Rightarrow>
          (Inr (error_response (dict_get request ''id'' PNone) (- 32603) (exc_str e)), w')
      | (Inr response, w') \<Rightarrow> (Inr response, w'))"
  using assms by (simp add: handle_request_dict route_resources_read)

lemma example_tools_keys: "set (map fst (tools example_server)) = {''add'', ''get_cpu_usage''}"
  by (simp only: example_server_fields) auto

text \<open>
  Claim C1, as amended. For every \<^verbatim>\<open>tools/call\<close> request whose \<open>params\<close> is an object:
  if \<open>params.name\<close> (null when absent) is a hashable value, that is null, a boolean, a
  number or a string, and is not a key of the tool registry, the response is the error
  envelope with code \<open>-32602\<close>; if \<open>params.name\<close> is a list or an object, the membership
  test raises and the response is the error envelope with code \<open>-32603\<close>; if
  \<open>params.name\<close> is a registered name, \<open>params.arguments\<close> is an object (the empty one
  when absent) and the handler, called with these keyword arguments, returns a value, the
  response is the success envelope whose \<open>result.content\<close> is the one-element list of
  \<open>{type: "text", text: t}\<close> with \<open>t\<close> the \<^verbatim>\<open>json.dumps(result, indent=2)\<close> of that
  value.
\<close>

theorem tools_call_responses:
  assumes "dict_get request ''method'' PNone = PStr ''tools/call''"
    and "dict_get request ''params'' (PDict []) = PDict params"
  shows
    "(hashable tool_name \<and> dict_get params ''name'' PNone = tool_name \<and>
      (\<forall>n. tool_name = PStr n \<longrightarrow> n \<notin> set (map fst (tools srv))) \<longrightarrow>
        handle_request lib srv (PDict request) w =
          (Inr (PDict [(''jsonrpc'', PStr ''2.0''),
                       (''id'', dict_get request ''id'' PNone),
                       (''error'', PDict [(''code'', PInt (- 32602)),
                                          (''message'', PStr (''Unknown tool: '' @ py_str lib tool_name))])]), w)) \<and>
     (\<not> hashable tool_name \<and> dict_get params ''name'' PNone = tool_name \<longrightarrow>
        handle_request lib srv (PDict request) w =
          (Inr (PDict [(''jsonrpc'', PStr ''2.0''),
                       (''id'', dict_get request ''id'' PNone),
                       (''error'', PDict [(''code'', PInt (- 32603)),
                                          (''message'', PStr (''unhashable type: '' @ quoted (type_name tool_name)))])]), w)) \<and>
     (dict_get params ''name'' PNone = PStr n \<and> n \<in> set (map fst (tools srv)) \<and>
      map_of (tool_functions srv) n = Some func \<and>
      dict_get params ''arguments'' (PDict []) = PDict kwargs \<and>
      func_call func kwargs w = (Inr result, w') \<longrightarrow>
        handle_request lib srv (PDict request) w =
          (Inr (PDict [(''jsonrpc'', PStr ''2.0''),
                       (''id'', dict_get request ''id'' PNone),
                       (''result'',
                          PDict [(''content'',
                             PList [PDict [(''type'', PStr ''text''),
                               (''text'', PStr (json_dumps lib (Some 2) result))]])])]),
           w'))"
proof (intro conjI impI)
  assume "hashable tool_name \<and> dict_get params ''name'' PNone = tool_name \<and>
      (\<forall>n. tool_name = PStr n \<longrightarrow> n \<notin> set (map fst (tools srv)))"
  then have "handle_tool_call lib srv (PDict params) (dict_get request ''id'' PNone) w =
      (Inr (error_response (dict_get request ''id'' PNone) (- 32602)
              (''Unknown tool: '' @ py_str lib tool_name)), w)"
    by (intro handle_tool_call_unknown) auto
  with assms show "handle_request lib srv (PDict request) w =
          (Inr (PDict [(''jsonrpc'', PStr ''2.0''),
                       (''id'', dict_get request ''id'' PNone),
                       (''error'', PDict [(''code'', PInt (- 32602)),
                                          (''message'', PStr (''Unknown tool: '' @ py_str lib tool_name))])]), w)"
    by (simp add: handle_request_tools_call error_response_def)
next
  assume "\<not> hashable tool_name \<and> dict_get params ''name'' PNone = tool_name"
  then have "handle_tool_call lib srv (PDict params) (dict_get request ''id'' PNone) w =
      (Inl (unhashable_type tool_name), w)"
    by (intro handle_tool_call_unhashable) auto
  with assms show "handle_request lib srv (PDict request) w =
          (Inr (PDict [(''jsonrpc'', PStr ''2.0''),
                       (''id'', dict_get request ''id'' PNone),
                       (''error'', PDict [(''code'', PInt (- 32603)),
                                          (''message'', PStr (''unhashable type: '' @ quoted (type_name tool_name)))])]), w)"
    by (simp add: handle_request_tools_call unhashable_type_def error_response_def)
next
  assume "dict_get params ''name'' PNone = PStr n \<and> n \<in> set (map fst (tools srv)) \<and>
      map_of (tool_functions srv) n = Some func \<and>
      dict_get params ''arguments'' (PDict []) = PDict kwargs \<and>
      func_call func kwargs w = (Inr result, w')"
  then have "handle_tool_call lib srv (PDict params) (dict_get request ''id'' PNone) w =
     (Inr (PDict [(''jsonrpc'', PStr ''2.0''),
                       (''id'', dict_get request ''id'' PNone),
                       (''result'',
                          PDict [(''content'',
                             PList [PDict [(''type'', PStr ''text''),
                               (''text'', PStr (json_dumps lib (Some 2) result))]])])]),
           w')"
    by (simp add: handle_tool_call_known [of params n srv func] call_kwargs_def)
  with assms show "handle_request lib srv (PDict request) w =
          (Inr (PDict [(''jsonrpc'', PStr ''2.0''),
                       (''id'', dict_get request ''id'' PNone),
                       (''result'',
                          PDict [(''content'',
                             PList [PDict [(''type'', PStr ''text''),
                               (''text'', PStr (json_dumps lib (Some 2) result))]])])]),
           w')"
    by (simp add: handle_request_tools_call error_response_def)
qed

text \<open>
  The witness: \<^verbatim>\<open>add\<close> called with \<open>a = 5\<close> answers the text \<open>5\<close>; the unregistered
  name \<^verbatim>\<open>nope\<close> answers \<open>-32602\<close>; the name \<^verbatim>\<open>{}\<close> answers \<open>-32603\<close>.
\<close>

theorem tools_call_responses_witness:
  "dict_get [(''id'', PInt 7), (''method'', PStr ''tools/call''),
             (''params'', PDict [(''name'', PStr ''add''),
                                 (''arguments'', PDict [(''a'', PInt 5)])])] ''method'' PNone
     = PStr ''tools/call'' \<and>
   ''add'' \<in> set (map fst (tools example_server)) \<and>
   map_of (tool_functions example_server) ''add'' = Some add_func \<and>
   func_call add_func [(''a'', PInt 5)] 0 = (Inr (PInt 5), 1) \<and>
   handle_request example_lib example_server
     (PDict [(''id'', PInt 7), (''method'', PStr ''tools/call''),
             (''params'', PDict [(''name'', PStr ''add''),
                                 (''arguments'', PDict [(''a'', PInt 5)])])]) 0 =
     (Inr (PDict [(''jsonrpc'', PStr ''2.0''),
                  (''id'', PInt 7),
                  (''result'',
                     PDict [(''content'',
                        PList [PDict [(''type'', PStr ''text''), (''text'', PStr ''5'')]])])]),
      1) \<and>
   hashable (PStr ''nope'') \<and> ''nope'' \<notin> set (map fst (tools example_server)) \<and>
   handle_request example_lib example_server
     (PDict [(''id'', PInt 3), (''method'', PStr ''tools/call''),
             (''params'', PDict [(''name'', PStr ''nope'')])]) 0 =
     (Inr (PDict [(''jsonrpc'', PStr ''2.0''),
                  (''id'', PInt 3),
                  (''error'', PDict [(''code'', PInt (- 32602)),
                                     (''message'', PStr ''Unknown tool: nope'')])]), 0) \<and>
   \<not> hashable (PDict []) \<and>
   handle_request example_lib example_server
     (PDict [(''id'', PInt 4), (''method'', PStr ''tools/call''),
             (''params'', PDict [(''name'', PDict [])])]) 0 =
     (Inr (PDict [(''jsonrpc'', PStr ''2.0''),
                  (''id'', PInt 4),
                  (''error'', PDict [(''code'', PInt (- 32603)),
                                     (''message'', PStr (''unhashable type: '' @ quoted ''dict''))])]), 0)"
proof -
  have keys: "''add'' \<in> set (map fst (tools example_server))"
    "''nope'' \<notin> set (map fst (tools example_server))"
    by (simp_all only: example_tools_keys) auto
  have func: "map_of (tool_functions example_server) ''add'' = Some add_func"
    by (simp add: example_server_fields)
  have call: "func_call add_func [(''a'', PInt 5)] 0 = (Inr (PInt 5), 1)"
    by (simp add: add_func_def dict_get_def)
  have dumps: "json_dumps example_lib (Some 2) (PInt 5) = ''5''"
    by (simp add: example_lib_def)
  note known = tools_call_responses
    [where request = "[(''id'', PInt 7), (''method'', PStr ''tools/call''),
             (''params'', PDict [(''name'', PStr ''add''),
                                 (''arguments'', PDict [(''a'', PInt 5)])])]"
       and params = "[(''name'', PStr ''add''), (''arguments'', PDict [(''a'', PInt 5)])]"
       and srv = example_server and lib = example_lib and w = 0 and n = "''add''"
       and func = add_func and kwargs = "[(''a'', PInt 5)]" and result = "PInt 5" and w' = 1
       and tool_name = "PStr ''add''"]
  note unknown = tools_call_responses
    [where request = "[(''id'', PInt 3), (''method'', PStr ''tools/call''),
             (''params'', PDict [(''name'', PStr ''nope'')])]"
       and params = "[(''name'', PStr ''nope'')]"
       and srv = example_server and lib = example_lib and w = 0
       and tool_name = "PStr ''nope''"]
  note unhashable = tools_call_responses
    [where request = "[(''id'', PInt 4), (''method'', PStr ''tools/call''),
             (''params'', PDict [(''name'', PDict [])])]"
       and params = "[(''name'', PDict [])]"
       and srv = example_server and lib = example_lib and w = 0
       and tool_name = "PDict []"]
  show ?thesis
    using known unknown unhashable keys func call dumps
    by (simp add: dict_get_def py_str_def)
qed

text \<open>
  The claim as stated fails twice on the example server, whose tools are \<^verbatim>\<open>add\<close> and
  \<^verbatim>\<open>get_cpu_usage\<close>. The name \<^verbatim>\<open>[]\<close> is not a key of the registry, and the response
  has the code \<open>-32603\<close>, not \<open>-32602\<close>: a list cannot be hashed. The name
  \<^verbatim>\<open>get_cpu_usage\<close> is registered and the argument \<open>interval = -1\<close> binds, and the
  response is not a success envelope: the handler raises \<^verbatim>\<open>ValueError\<close>.
\<close>

theorem tools_call_counterexample:
  "map fst (tools example_server) = [''add'', ''get_cpu_usage''] \<and>
   handle_request example_lib example_server
     (PDict [(''jsonrpc'', PStr ''2.0''), (''id'', PInt 1), (''method'', PStr ''tools/call''),
             (''params'', PDict [(''name'', PList [])])]) 0 =
     (Inr (PDict [(''jsonrpc'', PStr ''2.0''),
                  (''id'', PInt 1),
                  (''error'', PDict [(''code'', PInt (- 32603)),
                                     (''message'', PStr (''unhashable type: '' @ quoted ''list''))])]), 0) \<and>
   func_call cpu_func [(''interval'', PInt (- 1))] 0 =
     (Inl (PyException ''ValueError'' ''interval is not positive (got -1)''), 1) \<and>
   handle_request example_lib example_server cpu_request 0 =
     (Inr (PDict [(''jsonrpc'', PStr ''2.0''),
                  (''id'', PStr ''c1''),
                  (''error'', PDict [(''code'', PInt (- 32603)),
                                     (''message'', PStr ''interval is not positive (got -1)'')])]), 1)"
  by (simp add: example_server_fields handle_request_tools_call dict_get_def cpu_request_def
        handle_tool_call_def py_get_def py_in_def py_getitem_def call_kwargs_def
        unhashable_type_def cpu_func_def error_response_def)

text \<open>
  Claim C5, as amended. For every \<^verbatim>\<open>resources/read\<close> request whose \<open>params\<close> is an
  object: if \<open>params.uri\<close> (null when absent) is a hashable value, that is null, a
  boolean, a number or a string, and is not a registered URI, the response is the error
  with code \<open>-32602\<close> and the message \<open>Unknown resource: \<close> followed by \<^verbatim>\<open>str(uri)\<close>,
  which for a string is the uri itself; if \<open>params.uri\<close> is a list or an object, the
  membership test raises and the response is the error with code \<open>-32603\<close>; if the URI is
  registered and its handler, called without arguments, returns a value, the response's
  \<open>result.contents\<close> is the one-element list carrying that uri, the mimeType
  \<open>text/plain\<close> and, as \<open>text\<close>, the value returned.
\<close>

theorem resources_read_responses:
  assumes "dict_get request ''method'' PNone = PStr ''resources/read''"
    and "dict_get request ''params'' (PDict []) = PDict params"
  shows
    "(hashable uri \<and> dict_get params ''uri'' PNone = uri \<and>
      (\<forall>u. uri = PStr u \<longrightarrow> u \<notin> set (map fst (resources srv))) \<longrightarrow>
        handle_request lib srv (PDict request) w =
          (Inr (PDict [(''jsonrpc'', PStr ''2.0''),
                       (''id'', dict_get request ''id'' PNone),
                       (''error'', PDict [(''code'', PInt (- 32602)),
                                          (''message'', PStr (''Unknown resource: '' @ py_str lib uri))])]), w)) \<and>
     py_str lib (PStr u) = u \<and>
     (\<not> hashable uri \<and> dict_get params ''uri'' PNone = uri \<longrightarrow>
        handle_request lib srv (PDict request) w =
          (Inr (PDict [(''jsonrpc'', PStr ''2.0''),
                       (''id'', dict_get request ''id'' PNone),
                       (''error'', PDict [(''code'', PInt (- 32603)),
                                          (''message'', PStr (''unhashable type: '' @ quoted (type_name uri)))])]), w)) \<and>
     (dict_get params ''uri'' PNone = PStr u \<and> map_of (resources srv) u = Some func \<and>
      func_call func [] w = (Inr content, w') \<longrightarrow>
        handle_request lib srv (PDict request) w =
          (Inr (PDict [(''jsonrpc'', PStr ''2.0''),
                       (''id'', dict_get request ''id'' PNone),
                       (''result'',
                          PDict [(''contents'',
                             PList [PDict [(''uri'', PStr u),
                                           (''mimeType'', PStr ''text/plain''),
                                           (''text'', content)]])])]),
           w'))"
proof (intro conjI impI)
  assume "hashable uri \<and> dict_get params ''uri'' PNone = uri \<and>
      (\<forall>u. uri = PStr u \<longrightarrow> u \<notin> set (map fst (resources srv)))"
  then have "handle_resource_read lib srv (PDict params) (dict_get request ''id'' PNone) w =
      (Inr (error_response (dict_get request ''id'' PNone) (- 32602)
              (''Unknown resource: '' @ py_str lib uri)), w)"
    by (intro handle_resource_read_unknown) auto
  with assms show "handle_request lib srv (PDict request) w =
          (Inr (PDict [(''jsonrpc'', PStr ''2.0''),
                       (''id'', dict_get request ''id'' PNone),
                       (''error'', PDict [(''code'', PInt (- 32602)),
                                          (''message'', PStr (''Unknown resource: '' @ py_str lib uri))])]), w)"
    by (simp add: handle_request_resources_read error_response_def)
next
  show "py_str lib (PStr u) = u" by (simp add: py_str_def)
next
  assume "\<not> hashable uri \<and> dict_get params ''uri'' PNone = uri"
  then have "handle_resource_read lib srv (PDict params) (dict_get request ''id'' PNone) w =
      (Inl (unhashable_type uri), w)"
    by (intro handle_resource_read_unhashable) auto
  with assms show "handle_request lib srv (PDict request) w =
          (Inr (PDict [(''jsonrpc'', PStr ''2.0''),
                       (''id'', dict_get request ''id'' PNone),
                       (''error'', PDict [(''code'', PInt (- 32603)),
                                          (''message'', PStr (''unhashable type: '' @ quoted (type_name uri)))])]), w)"
    by (simp add: handle_request_resources_read unhashable_type_def error_response_def)
next
  assume "dict_get params ''uri'' PNone = PStr u \<and> map_of (resources srv) u = Some func \<and>
      func_call func [] w = (Inr content, w')"
  then have "handle_resource_read lib srv (PDict params) (dict_get request ''id'' PNone) w =
     (Inr (PDict [(''jsonrpc'', PStr ''2.0''),
                       (''id'', dict_get request ''id'' PNone),
                       (''result'',
                          PDict [(''contents'',
                             PList [PDict [(''uri'', PStr u),
                                           (''mimeType'', PStr ''text/plain''),
                                           (''text'', content)]])])]),
           w')"
    by (simp add: handle_resource_read_known [of params u srv func])
  with assms show "handle_request lib srv (PDict request) w =
          (Inr (PDict [(''jsonrpc'', PStr ''2.0''),
                       (''id'', dict_get request ''id'' PNone),
                       (''result'',
                          PDict [(''contents'',
                             PList [PDict [(''uri'', PStr u),
                                           (''mimeType'', PStr ''text/plain''),
                                           (''text'', content)]])])]),
           w')"
    by (simp add: handle_request_resources_read error_response_def)
qed

text \<open>
  The witness: \<^verbatim>\<open>system://status\<close> is read; the scenario of the specification,
  \<^verbatim>\<open>system://bogus\<close>, answers \<open>-32602\<close> with the message
  \<open>Unknown resource: system://bogus\<close>; the uri \<^verbatim>\<open>{}\<close> answers \<open>-32603\<close>.
\<close>

theorem resources_read_responses_witness:
  "dict_get [(''id'', PInt 8), (''method'', PStr ''resources/read''),
             (''params'', PDict [(''uri'', PStr ''system://status'')])] ''method'' PNone
     = PStr ''resources/read'' \<and>
   map_of (resources example_server) ''system://status'' = Some status_func \<and>
   func_call status_func [] 0 = (Inr (PStr ''System Status Overview''), 1) \<and>
   handle_request example_lib example_server
     (PDict [(''id'', PInt 8), (''method'', PStr ''resources/read''),
             (''params'', PDict [(''uri'', PStr ''system://status'')])]) 0 =
     (Inr (PDict [(''jsonrpc'', PStr ''2.0''),
                  (''id'', PInt 8),
                  (''result'',
                     PDict [(''contents'',
                        PList [PDict [(''uri'', PStr ''system://status''),
                                      (''mimeType'', PStr ''text/plain''),
                                      (''text'', PStr ''System Status Overview'')]])])]),
      1) \<and>
   hashable (PStr ''system://bogus'') \<and>
   ''system://bogus'' \<notin> set (map fst (resources example_server)) \<and>
   handle_request example_lib example_server
     (PDict [(''id'', PInt 9), (''method'', PStr ''resources/read''),
             (''params'', PDict [(''uri'', PStr ''system://bogus'')])]) 0 =
     (Inr (PDict [(''jsonrpc'', PStr ''2.0''),
                  (''id'', PInt 9),
                  (''error'', PDict [(''code'', PInt (- 32602)),
                                     (''message'', PStr ''Unknown resource: system://bogus'')])]), 0) \<and>
   \<not> hashable (PDict []) \<and>
   handle_request example_lib example_server
     (PDict [(''id'', PInt 4), (''method'', PStr ''resources/read''),
             (''params'', PDict [(''uri'', PDict [])])]) 0 =
     (Inr (PDict [(''jsonrpc'', PStr ''2.0''),
                  (''id'', PInt 4),
                  (''error'', PDict [(''code'', PInt (- 32603)),
                                     (''message'', PStr (''unhashable type: '' @ quoted ''dict''))])]), 0)"
proof -
  have keys: "''system://bogus'' \<notin> set (map fst (resources example_server))"
    by (simp add: example_server_fields)
  have func: "map_of (resources example_server) ''system://status'' = Some status_func"
    by (simp add: example_server_fields)
  have call: "func_call status_func [] 0 = (Inr (PStr ''System Status Overview''), 1)"
    by (simp add: status_func_def)
  note known = resources_read_responses
    [where request = "[(''id'', PInt 8), (''method'', PStr ''resources/read''),
             (''params'', PDict [(''uri'', PStr ''system://status'')])]"
       and params = "[(''uri'', PStr ''system://status'')]"
       and srv = example_server and lib = example_lib and w = 0
       and u = "''system://status''" and func = status_func
       and content = "PStr ''System Status Overview''" and w' = 1
       and uri = "PStr ''system://status''"]
  note unknown = resources_read_responses
    [where request = "[(''id'', PInt 9), (''method'', PStr ''resources/read''),
             (''params'', PDict [(''uri'', PStr ''system://bogus'')])]"
       and params = "[(''uri'', PStr ''system://bogus'')]"
       and srv = example_server and lib = example_lib and w = 0
       and uri = "PStr ''system://bogus''" and u = "''system://bogus''"]
  note unhashable = resources_read_responses
    [where request = "[(''id'', PInt 4), (''method'', PStr ''resources/read''),
             (''params'', PDict [(''uri'', PDict [])])]"
       and params = "[(''uri'', PDict [])]"
       and srv = example_server and lib = example_lib and w = 0
       and uri = "PDict []"]
  show ?thesis
    using known unknown unhashable keys func call
    by (simp add: dict_get_def py_str_def)
qed

text \<open>
  The claim as stated fails twice on the example server, whose resources are
  \<^verbatim>\<open>system://status\<close> and \<^verbatim>\<open>system://sensors\<close>. The uri \<^verbatim>\<open>[]\<close> is not a registered URI,
  and the response has the code \<open>-32603\<close>, not \<open>-32602\<close>: a list cannot be hashed. The
  uri \<^verbatim>\<open>system://sensors\<close> is registered, and the response has no \<open>result\<close>: its handler
  raises.
\<close>

theorem resources_read_counterexample:
  "map fst (resources example_server) = [''system://status'', ''system://sensors''] \<and>
   handle_request example_lib example_server
     (PDict [(''jsonrpc'', PStr ''2.0''), (''id'', PInt 1), (''method'', PStr ''resources/read''),
             (''params'', PDict [(''uri'', PList [])])]) 0 =
     (Inr (PDict [(''jsonrpc'', PStr ''2.0''),
                  (''id'', PInt 1),
                  (''error'', PDict [(''code'', PInt (- 32603)),
                                     (''message'', PStr (''unhashable type: '' @ quoted ''list''))])]), 0) \<and>
   handle_request example_lib example_server
     (PDict [(''jsonrpc'', PStr ''2.0''), (''id'', PInt 2), (''method'', PStr ''resources/read''),
             (''params'', PDict [(''uri'', PStr ''system://sensors'')])]) 0 =
     (Inr (PDict [(''jsonrpc'', PStr ''2.0''),
                  (''id'', PInt 2),
                  (''error'', PDict [(''code'', PInt (- 32603)),
                                     (''message'', PStr ''sensors not available'')])]), 1)"
  by (simp add: example_server_fields handle_request_resources_read dict_get_def
        handle_resource_read_def py_get_def py_in_def py_getitem_def
        unhashable_type_def sensors_func_def error_response_def)

section \<open>The transport loop: one line after the other\<close>

lemma run_readline_error:
  "run lib srv (Inl e # rest) w =
     (json_dumps lib None (parse_error_response e) # fst (run lib srv rest w),
      snd (run lib srv rest w))"
  by (simp split: prod.splits)

lemma run_parse_error_line:
  assumes "line \<noteq> []" and "json_loads lib line = Inl e"
  shows "run lib srv (Inr line # rest) w =
           (json_dumps lib None (parse_error_response e) # fst (run lib srv rest w),
            snd (run lib srv rest w))"
  using assms by (simp split: prod.splits)

lemma run_response_line:
  assumes "line \<noteq> []" and "json_loads lib line = Inr request"
    and "handle_request lib srv request w = (Inr response, w')"
  shows "run lib srv (Inr line # rest) w =
           (json_dumps lib None response # fst (run lib srv rest w'),
            snd (run lib srv rest w'))"
  using assms by (simp split: prod.splits)

lemma run_append:
  "Inr [] \<notin> set pre \<Longrightarrow>
     run lib srv (pre @ rest) w =
       (fst (run lib srv pre w) @ fst (run lib srv rest (snd (run lib srv pre w))),
        snd (run lib srv rest (snd (run lib srv pre w))))"
proof (induction pre arbitrary: w)
  case Nil
  show ?case by simp
next
  case (Cons x pre)
  then have IH: "run lib srv (pre @ rest) w' =
       (fst (run lib srv pre w') @ fst (run lib srv rest (snd (run lib srv pre w'))),
        snd (run lib srv rest (snd (run lib srv pre w'))))" for w'
    by simp
  show ?case
  proof (cases x)
    case (Inl e)
    then show ?thesis by (simp add: IH split: prod.splits)
  next
    case (Inr line)
    with Cons.prems have "line \<noteq> []" by auto
    with Inr show ?thesis by (auto simp: IH split: sum.splits prod.splits)
  qed
qed

lemma parse_error_response_explicit:
  "parse_error_response e =
     PDict [(''jsonrpc'', PStr ''2.0''),
            (''id'', PNone),
            (''error'', PDict [(''code'', PInt (- 32700)),
                               (''message'', PStr (''Parse error: '' @ exc_str e))])]"
  by (simp add: parse_error_response_def)

lemma example_lines:
  "add_line \<noteq> []" "cpu_line \<noteq> []" "status_line \<noteq> []" "read_sensors_line \<noteq> []"
  "nan_line \<noteq> []"
  "json_loads example_lib add_line = Inr add_request"
  "json_loads example_lib cpu_line = Inr cpu_request"
  "json_loads example_lib status_line = Inr status_request"
  "json_loads example_lib read_sensors_line = Inr read_sensors_request"
  "json_loads example_lib nan_line = Inr nan_request"
  "json_loads example_lib ''not json'' =
     Inl (PyException ''JSONDecodeError'' ''Expecting value: line 1 column 1 (char 0)'')"
  by (simp_all add: example_lib_def add_line_def cpu_line_def status_line_def
        read_sensors_line_def nan_line_def)

lemma example_add_response:
  "handle_request example_lib example_server add_request w =
      (Inr (PDict [(''jsonrpc'', PStr ''2.0''),
                  (''id'', PInt 7),
                  (''result'',
                     PDict [(''content'',
                        PList [PDict [(''type'', PStr ''text''), (''text'', PStr ''5'')]])])]),
       Suc w)"
  by (simp add: add_request_def handle_request_tools_call dict_get_def
        handle_tool_call_def py_get_def py_in_def py_getitem_def call_kwargs_def
        example_server_fields add_func_def example_lib_def)

lemma example_status_response:
  "handle_request example_lib example_server status_request w =
     (Inr (PDict [(''jsonrpc'', PStr ''2.0''),
                  (''id'', PInt 8),
                  (''result'',
                     PDict [(''contents'',
                        PList [PDict [(''uri'', PStr ''system://status''),
                                      (''mimeType'', PStr ''text/plain''),
                                      (''text'', PStr ''System Status Overview'')]])])]),
      Suc w)"
  by (simp add: status_request_def handle_request_resources_read dict_get_def
        handle_resource_read_def py_get_def py_in_def py_getitem_def
        example_server_fields status_func_def)

lemma example_run_add:
  "run example_lib example_server [Inr add_line] w = ([''<result>''], Suc w)"
  using run_response_line [OF example_lines(1) example_lines(6) example_add_response, of "[]" w]
  by (simp add: example_lib_def del: run.simps(2,3))

lemma example_run_status:
  "run example_lib example_server [Inr status_line] w = ([''<result>''], Suc w)"
  using run_response_line
    [OF example_lines(3) example_lines(8) example_status_response, of "[]" w]
  by (simp add: example_lib_def del: run.simps(2,3))

lemma example_dumps_error:
  "json_dumps example_lib None
     (PDict [(''jsonrpc'', PStr ''2.0''), (''id'', i),
             (''error'', PDict [(''code'', PInt (- 32700)), (''message'', m)])])
     = ''<error -32700>''"
  "json_dumps example_lib None
     (PDict [(''jsonrpc'', PStr ''2.0''), (''id'', i),
             (''error'', PDict [(''code'', PInt (- 32603)), (''message'', m)])])
     = ''<error -32603>''"
  by (simp_all add: example_lib_def)

text \<open>
  The recognizer of JSON texts accepts the four request lines of the example and rejects
  the fifth, at its \<^verbatim>\<open>NaN\<close>.
\<close>

lemma example_lines_valid:
  "valid_json add_line" "valid_json cpu_line" "valid_json status_line"
  "valid_json read_sensors_line" "\<not> valid_json nan_line" "\<not> valid_json ''not json''"
  "valid_json ''[]''"
  by (simp_all add: valid_json_def add_line_def cpu_line_def status_line_def
        read_sensors_line_def nan_line_def start_value_def after_value_def json_ws_def
        json_digit_def)

text \<open>
  Claim C3, as amended. For every input line on which \<^verbatim>\<open>json.loads\<close> raises, wherever
  it stands in the input, and likewise for every call of \<^verbatim>\<open>readline\<close> that raises, the
  transport loop prints the envelope with \<open>id\<close> null and \<open>error.code\<close> \<open>-32700\<close>,
  calls no handler (the world is the one the lines before left behind, and alone the line
  gives this one output on every server), and goes on with the next call of
  \<^verbatim>\<open>readline\<close>.
\<close>

theorem run_parse_error:
  assumes "Inr [] \<notin> set pre"
    and "(\<exists>line. x = Inr line \<and> line \<noteq> [] \<and> json_loads lib line = Inl e) \<or> x = Inl e"
  shows "\<exists>response.
           run lib srv (pre @ x # rest) w =
             (fst (run lib srv pre w) @
                json_dumps lib None response #
                fst (run lib srv rest (snd (run lib srv pre w))),
              snd (run lib srv rest (snd (run lib srv pre w)))) \<and>
           run lib srv [x] w = ([json_dumps lib None response], w) \<and>
           response =
             PDict [(''jsonrpc'', PStr ''2.0''),
                    (''id'', PNone),
                    (''error'', PDict [(''code'', PInt (- 32700)),
                                       (''message'', PStr (''Parse error: '' @ exc_str e))])] \<and>
           at_path [''id''] response = Some PNone \<and>
           at_path [''error'', ''code''] response = Some (PInt (- 32700)) \<and>
           at_path [''result''] response = None"
proof -
  have step: "run lib srv (x # rest') w' =
      (json_dumps lib None (parse_error_response e) # fst (run lib srv rest' w'),
       snd (run lib srv rest' w'))" for rest' w'
    using assms(2) by (auto simp: run_readline_error run_parse_error_line simp del: run.simps)
  have "run lib srv (pre @ x # rest) w =
        (fst (run lib srv pre w) @
           json_dumps lib None (parse_error_response e) #
           fst (run lib srv rest (snd (run lib srv pre w))),
         snd (run lib srv rest (snd (run lib srv pre w))))"
    using assms(1) by (simp add: run_append [of pre] step del: run.simps)
  moreover have "run lib srv [x] w = ([json_dumps lib None (parse_error_response e)], w)"
    by (simp add: step del: run.simps(2,3))
  ultimately show ?thesis
    by (intro exI [of _ "parse_error_response e"])
       (simp add: parse_error_response_explicit del: run.simps)
qed

text \<open>
  The witness: a line that does not decode between two requests, and a call of
  \<^verbatim>\<open>readline\<close> that raises before a request.
\<close>

theorem run_parse_error_witness:
  "Inr [] \<notin> set [Inr add_line] \<and> ''not json'' \<noteq> [] \<and>
   json_loads example_lib ''not json'' =
     Inl (PyException ''JSONDecodeError'' ''Expecting value: line 1 column 1 (char 0)'') \<and>
   run example_lib example_server [Inr add_line, Inr ''not json'', Inr status_line] 0 =
     ([''<result>'', ''<error -32700>'', ''<result>''], 2) \<and>
   run example_lib example_server
     [Inl (PyException ''UnicodeDecodeError'' ''invalid start byte''), Inr status_line] 0 =
     ([''<error -32700>'', ''<result>''], 1)"
proof -
  note bad_line = run_parse_error
    [where pre = "[Inr add_line]" and x = "Inr ''not json''" and lib = example_lib
       and e = "PyException ''JSONDecodeError'' ''Expecting value: line 1 column 1 (char 0)''"
       and srv = example_server and rest = "[Inr status_line]" and w = 0]
  note bad_read = run_parse_error
    [where pre = "[]" and x = "Inl (PyException ''UnicodeDecodeError'' ''invalid start byte'')"
       and lib = example_lib
       and e = "PyException ''UnicodeDecodeError'' ''invalid start byte''"
       and srv = example_server and rest = "[Inr status_line]" and w = 0]
  have ne: "Inr [] \<noteq> (Inr add_line :: pyexception + string)"
    using example_lines(1) by auto
  show ?thesis
    using bad_line bad_read ne
    by (simp add: example_lines example_run_add example_run_status example_dumps_error
          del: run.simps(2,3))
qed

text \<open>
  The claim as stated fails on a line that is not valid JSON and that \<^verbatim>\<open>json.loads\<close>
  decodes all the same: with \<^verbatim>\<open>NaN\<close> for its \<open>params\<close>, the \<^verbatim>\<open>initialize\<close> request
  is dispatched and answered with a result, not with the error \<open>-32700\<close>.
\<close>

theorem run_invalid_json_counterexample:
  "\<not> valid_json nan_line \<and>
   json_loads example_lib nan_line = Inr nan_request \<and>
   handle_request example_lib example_server nan_request 0 =
     (Inr (PDict [(''jsonrpc'', PStr ''2.0''),
                  (''id'', PInt 1),
                  (''result'',
                     PDict [(''protocolVersion'', PStr ''2024-11-05''),
                            (''capabilities'',
                               PDict [(''tools'', PDict []), (''resources'', PDict [])]),
                            (''serverInfo'',
                               PDict [(''name'', PStr ''SystemMonitor''),
                                      (''version'', PStr ''1.0.0'')])])]), 0) \<and>
   run example_lib example_server [Inr nan_line] 0 = ([''<result>''], 0)"
proof -
  have response: "handle_request example_lib example_server nan_request 0 =
     (Inr (PDict [(''jsonrpc'', PStr ''2.0''),
                  (''id'', PInt 1),
                  (''result'',
                     PDict [(''protocolVersion'', PStr ''2024-11-05''),
                            (''capabilities'',
                               PDict [(''tools'', PDict []), (''resources'', PDict [])]),
                            (''serverInfo'',
                               PDict [(''name'', PStr ''SystemMonitor''),
                                      (''version'', PStr ''1.0.0'')])])]), 0)"
    by (simp add: nan_request_def handle_request_dict dict_get_def route_def
          handle_initialize_def example_server_def)
  from run_response_line [OF example_lines(5) example_lines(10) response, of "[]"]
  have "run example_lib example_server [Inr nan_line] 0 = ([''<result>''], 0)"
    by (simp add: example_lib_def del: run.simps(2,3))
  with response show ?thesis
    by (simp add: example_lines example_lines_valid del: run.simps)
qed

text \<open>
  Claim C4. For every request routed to a registered handler, a tool called by
  \<^verbatim>\<open>tools/call\<close> or a resource read by \<^verbatim>\<open>resources/read\<close>, whose handler raises an
  exception, the response is the error envelope with code \<open>-32603\<close> whose message is
  \<^verbatim>\<open>str(e)\<close>; the transport loop prints it and goes on with the next line, from the
  world the handler left behind.
\<close>

theorem handler_exception_response:
  assumes "Inr [] \<notin> set pre" and "line \<noteq> []"
    and "json_loads lib line = Inr (PDict request)"
    and "dict_get request ''params'' (PDict []) = PDict params"
    and "(dict_get request ''method'' PNone = PStr ''tools/call'' \<and>
          dict_get params ''name'' PNone = PStr n \<and> n \<in> set (map fst (tools srv)) \<and>
          map_of (tool_functions srv) n = Some func \<and>
          dict_get params ''arguments'' (PDict []) = PDict kwargs) \<or>
         (dict_get request ''method'' PNone = PStr ''resources/read'' \<and>
          dict_get params ''uri'' PNone = PStr n \<and>
          map_of (resources srv) n = Some func \<and> kwargs = [])"
    and "func_call func kwargs (snd (run lib srv pre w)) = (Inl e, w')"
  shows "\<exists>response.
           handle_request lib srv (PDict request) (snd (run lib srv pre w)) =
             (Inr response, w') \<and>
           response =
             PDict [(''jsonrpc'', PStr ''2.0''),
                    (''id'', dict_get request ''id'' PNone),
                    (''error'', PDict [(''code'', PInt (- 32603)),
                                       (''message'', PStr (exc_str e))])] \<and>
           at_path [''error'', ''code''] response = Some (PInt (- 32603)) \<and>
           at_path [''error'', ''message''] response = Some (PStr (exc_str e)) \<and>
           at_path [''result''] response = None \<and>
           run lib srv (pre @ Inr line # rest) w =
             (fst (run lib srv pre w) @
                json_dumps lib None response #
                fst (run lib srv rest w'),
              snd (run lib srv rest w'))"
proof -
  let ?w = "snd (run lib srv pre w)"
  let ?response = "error_response (dict_get request ''id'' PNone) (- 32603) (exc_str e)"
  have response: "handle_request lib srv (PDict request) ?w = (Inr ?response, w')"
    using assms(5)
  proof
    assume t: "dict_get request ''method'' PNone = PStr ''tools/call'' \<and>
          dict_get params ''name'' PNone = PStr n \<and> n \<in> set (map fst (tools srv)) \<and>
          map_of (tool_functions srv) n = Some func \<and>
          dict_get params ''arguments'' (PDict []) = PDict kwargs"
    then have "handle_tool_call lib srv (PDict params) (dict_get request ''id'' PNone) ?w =
        (Inl e, w')"
      using assms(6) by (simp add: handle_tool_call_known [of params n srv func] call_kwargs_def)
    with t assms(4) show ?thesis by (simp add: handle_request_tools_call)
  next
    assume r: "dict_get request ''method'' PNone = PStr ''resources/read'' \<and>
          dict_get params ''uri'' PNone = PStr n \<and>
          map_of (resources srv) n = Some func \<and> kwargs = []"
    then have "handle_resource_read lib srv (PDict params) (dict_get request ''id'' PNone) ?w =
        (Inl e, w')"
      using assms(6) by (simp add: handle_resource_read_known [of params n srv func])
    with r assms(4) show ?thesis by (simp add: handle_request_resources_read)
  qed
  from run_response_line [OF assms(2) assms(3) response]
  have "run lib srv (Inr line # rest) ?w =
      (json_dumps lib None ?response # fst (run lib srv rest w'), snd (run lib srv rest w'))" .
  with assms(1) have "run lib srv (pre @ Inr line # rest) w =
             (fst (run lib srv pre w) @
                json_dumps lib None ?response #
                fst (run lib srv rest w'),
              snd (run lib srv rest w'))"
    by (simp add: run_append [of pre] del: run.simps)
  with response show ?thesis
    by (intro exI [of _ ?response]) (simp add: error_response_def del: run.simps)
qed

text \<open>
  The witness: the tool \<^verbatim>\<open>get_cpu_usage\<close> raises on the interval \<open>-1\<close>, the
  handler of the resource \<^verbatim>\<open>system://sensors\<close> raises; the line after each of them is
  answered as usual.
\<close>

theorem handler_exception_response_witness:
  "Inr [] \<notin> set ([] :: (pyexception + string) list) \<and> cpu_line \<noteq> [] \<and>
   json_loads example_lib cpu_line = Inr cpu_request \<and>
   map_of (tool_functions example_server) ''get_cpu_usage'' = Some cpu_func \<and>
   func_call cpu_func [(''interval'', PInt (- 1))] 0 =
     (Inl (PyException ''ValueError'' ''interval is not positive (got -1)''), 1) \<and>
   handle_request example_lib example_server cpu_request 0 =
     (Inr (PDict [(''jsonrpc'', PStr ''2.0''),
                  (''id'', PStr ''c1''),
                  (''error'', PDict [(''code'', PInt (- 32603)),
                                     (''message'', PStr ''interval is not positive (got -1)'')])]),
      1) \<and>
   run example_lib example_server [Inr cpu_line, Inr add_line] 0 =
     ([''<error -32603>'', ''<result>''], 2) \<and>
   json_loads example_lib read_sensors_line = Inr read_sensors_request \<and>
   map_of (resources example_server) ''system://sensors'' = Some sensors_func \<and>
   func_call sensors_func [] 0 =
     (Inl (PyException ''OSError'' ''sensors not available''), 1) \<and>
   handle_request example_lib example_server read_sensors_request 0 =
     (Inr (PDict [(''jsonrpc'', PStr ''2.0''),
                  (''id'', PInt 9),
                  (''error'', PDict [(''code'', PInt (- 32603)),
                                     (''message'', PStr ''sensors not available'')])]),
      1) \<and>
   run example_lib example_server [Inr read_sensors_line, Inr add_line] 0 =
     ([''<error -32603>'', ''<result>''], 2)"
proof -
  have call: "func_call cpu_func [(''interval'', PInt (- 1))] 0 =
      (Inl (PyException ''ValueError'' ''interval is not positive (got -1)''), 1)"
    "func_call sensors_func [] 0 = (Inl (PyException ''OSError'' ''sensors not available''), 1)"
    by (simp_all add: cpu_func_def sensors_func_def)
  note as_tool = handler_exception_response
    [where pre = "[]" and line = cpu_line and lib = example_lib and srv = example_server
       and request = "[(''jsonrpc'', PStr ''2.0''), (''id'', PStr ''c1''),
            (''method'', PStr ''tools/call''),
            (''params'', PDict [(''name'', PStr ''get_cpu_usage''),
                                (''arguments'', PDict [(''interval'', PInt (- 1))])])]"
       and params = "[(''name'', PStr ''get_cpu_usage''),
                      (''arguments'', PDict [(''interval'', PInt (- 1))])]"
       and n = "''get_cpu_usage''" and func = cpu_func and kwargs = "[(''interval'', PInt (- 1))]"
       and w = 0 and e = "PyException ''ValueError'' ''interval is not positive (got -1)''"
       and w' = 1 and rest = "[Inr add_line]"]
  note as_resource = handler_exception_response
    [where pre = "[]" and line = read_sensors_line and lib = example_lib and srv = example_server
       and request = "[(''jsonrpc'', PStr ''2.0''), (''id'', PInt 9),
            (''method'', PStr ''resources/read''),
            (''params'', PDict [(''uri'', PStr ''system://sensors'')])]"
       and params = "[(''uri'', PStr ''system://sensors'')]"
       and n = "''system://sensors''" and func = sensors_func and kwargs = "[]"
       and w = 0 and e = "PyException ''OSError'' ''sensors not available''"
       and w' = 1 and rest = "[Inr add_line]"]
  show ?thesis
    using as_tool as_resource
    by (simp add: example_lines cpu_request_def read_sensors_request_def dict_get_def
          example_server_fields call example_run_add example_dumps_error del: run.simps(2,3))
qed

section \<open>Listing resources: the name of a resource\<close>

lemma startswith_Nil [simp]: "startswith s [] = True"
  by (simp add: startswith_def)

lemma startswith_append [simp]: "startswith (sep @ s) sep = True"
  by (simp add: startswith_def)

lemma py_split_from_no_sep:
  "\<not> str_contains s sep \<Longrightarrow> py_split_from sep cur s = [cur @ s]"
  by (induction s arbitrary: cur) auto

lemma py_split_from_nonempty: "py_split_from sep cur s \<noteq> []"
  by (induction sep cur s rule: py_split_from.induct) auto

lemma py_split_from_length:
  "sep \<noteq> [] \<Longrightarrow> str_contains s sep \<Longrightarrow> 2 \<le> length (py_split_from sep cur s)"
proof (induction sep cur s rule: py_split_from.induct)
  case (1 sep cur)
  then show ?case by simp
next
  case (2 sep cur c cs)
  show ?case
  proof (cases "startswith (c # cs) sep")
    case True
    have "py_split_from sep [] (drop (length sep) (c # cs)) \<noteq> []"
      by (rule py_split_from_nonempty)
    then have "1 \<le> length (py_split_from sep [] (drop (length sep) (c # cs)))"
      by (simp add: Suc_le_eq)
    with True "2.prems"(1) show ?thesis by simp
  next
    case False
    with "2.prems" have "str_contains cs sep" by simp
    with False "2.IH"(2) "2.prems"(1) show ?thesis by simp
  qed
qed

lemma str_contains_scheme:
  "str_contains (scheme @ ''://'' @ rest) ''://''"
  by (induction scheme) (simp_all add: startswith_def)

lemma py_split_from_scheme:
  "CHR '':'' \<notin> set scheme \<Longrightarrow>
     py_split_from ''://'' cur (scheme @ ''://'' @ rest) =
       (cur @ scheme) # py_split_from ''://'' [] rest"
proof (induction scheme arbitrary: cur)
  case Nil
  show ?case by (simp add: startswith_def)
next
  case (Cons c scheme)
  then have "\<not> startswith ((c # scheme) @ ''://'' @ rest) ''://''"
    by (auto simp: startswith_def)
  with Cons show ?case by simp
qed

text \<open>
  \<^verbatim>\<open>uri.split("://")[1]\<close> never raises: when the separator occurs, the split has at
  least two pieces.
\<close>

lemma resource_name_total: "\<exists>n. resource_name uri = Inr n"
proof (cases "str_contains uri ''://''")
  case True
  then have "2 \<le> length (py_split_from ''://'' [] uri)"
    by (intro py_split_from_length) simp_all
  with True show ?thesis
    by (simp add: resource_name_def py_split_def list_getitem_def)
next
  case False
  then show ?thesis by (simp add: resource_name_def)
qed

text \<open>
  Where the name is what the data model describes: a URI without \<^verbatim>\<open>://\<close> is its own
  name, and a URI \<^verbatim>\<open>scheme://path\<close>, with no colon in the scheme and no further
  \<^verbatim>\<open>://\<close> in the path, has the name \<^verbatim>\<open>path\<close>.
\<close>

lemma resource_name_no_separator:
  "\<not> str_contains uri ''://'' \<Longrightarrow> resource_name uri = Inr uri"
  by (simp add: resource_name_def)

lemma resource_name_one_separator:
  assumes "CHR '':'' \<notin> set scheme" and "\<not> str_contains path ''://''"
  shows "resource_name (scheme @ ''://'' @ path) = Inr path"
proof -
  have "py_split_from ''://'' [] (scheme @ ''://'' @ path) = [scheme, path]"
    using py_split_from_scheme [OF assms(1), of "[]" path]
      py_split_from_no_sep [OF assms(2), of "[]"]
    by simp
  with str_contains_scheme [of scheme path] show ?thesis
    by (simp add: resource_name_def py_split_def list_getitem_def del: str_contains.simps)
qed

text \<open>
  With a second \<^verbatim>\<open>://\<close> the name stops there: it is the first piece of the split of
  what follows the first separator.
\<close>

lemma resource_name_general:
  assumes "CHR '':'' \<notin> set scheme"
  shows "resource_name (scheme @ ''://'' @ rest) = Inr (hd (py_split_from ''://'' [] rest))"
proof -
  have "py_split_from ''://'' [] rest \<noteq> []"
    by (rule py_split_from_nonempty)
  then obtain p ps where "py_split_from ''://'' [] rest = p # ps"
    by (cases "py_split_from ''://'' [] rest") auto
  with py_split_from_scheme [OF assms, of "[]" rest]
  have "py_split_from ''://'' [] (scheme @ ''://'' @ rest) = scheme # p # ps"
    and "hd (py_split_from ''://'' [] rest) = p"
    by simp_all
  with str_contains_scheme [of scheme rest] show ?thesis
    by (simp add: resource_name_def py_split_def list_getitem_def del: str_contains.simps)
qed

lemma resources_list_loop_descriptors:
  "\<exists>ns. length ns = length uris \<and>
     (\<forall>i < length uris. resource_name (uris ! i) = Inr (ns ! i)) \<and>
     resources_list_loop uris listed =
       Inr (listed @ map (\<lambda>(uri, n). PDict [(''uri'', PStr uri), (''name'', PStr n),
                                              (''mimeType'', PStr ''text/plain'')])
                      (zip uris ns))"
proof (induction uris arbitrary: listed)
  case Nil
  show ?case by simp
next
  case (Cons uri uris)
  obtain n where n: "resource_name uri = Inr n"
    using resource_name_total [of uri] by blast
  let ?d = "PDict [(''uri'', PStr uri), (''name'', PStr n), (''mimeType'', PStr ''text/plain'')]"
  from Cons.IH [of "listed @ [?d]"] obtain ns where ns:
    "length ns = length uris"
    "\<forall>i < length uris. resource_name (uris ! i) = Inr (ns ! i)"
    "resources_list_loop uris (listed @ [?d]) =
       Inr ((listed @ [?d]) @ map (\<lambda>(uri, n). PDict [(''uri'', PStr uri), (''name'', PStr n),
                                              (''mimeType'', PStr ''text/plain'')])
                      (zip uris ns))"
    by blast
  have "\<forall>i < length (uri # uris). resource_name ((uri # uris) ! i) = Inr ((n # ns) ! i)"
    using n ns(2) by (auto simp: nth_Cons split: nat.splits)
  with n ns(1,3) show ?case
    by (intro exI [of _ "n # ns"]) simp
qed

text \<open>
  Claim C9. The descriptor that \<^verbatim>\<open>resources/list\<close> reports for a registered URI has the
  registration key as \<open>uri\<close> and \<open>text/plain\<close> as \<open>mimeType\<close>, but its \<open>name\<close> is
  not always the portion of the URI after the \<^verbatim>\<open>://\<close> separator: for the resource
  registered as \<^verbatim>\<open>proxy://fetch?url=http://example.org\<close> the portion after the separator
  is \<^verbatim>\<open>fetch?url=http://example.org\<close>, and the name reported is \<^verbatim>\<open>fetch?url=http\<close>,
  because \<^verbatim>\<open>split("://")\<close> cuts at every separator and the piece of index 1 ends at the
  second one.
\<close>

theorem resources_list_name_stops_at_second_separator:
  "''proxy://fetch?url=http://example.org'' = ''proxy'' @ ''://'' @ ''fetch?url=http://example.org'' \<and>
   resource_name ''proxy://fetch?url=http://example.org'' = Inr ''fetch?url=http'' \<and>
   handle_resources_list
     (resource (MCPServer ''SystemMonitor'') ''proxy://fetch?url=http://example.org'' status_func)
     (PInt 1) =
     Inr (PDict [(''jsonrpc'', PStr ''2.0''),
                 (''id'', PInt 1),
                 (''result'',
                    PDict [(''resources'',
                       PList [PDict [(''uri'', PStr ''proxy://fetch?url=http://example.org''),
                                     (''name'', PStr ''fetch?url=http''),
                                     (''mimeType'', PStr ''text/plain'')]])])])"
proof -
  have "resource_name (''proxy'' @ ''://'' @ ''fetch?url=http'' @ ''://'' @ ''example.org'') =
      Inr (hd (py_split_from ''://'' [] (''fetch?url=http'' @ ''://'' @ ''example.org'')))"
    by (rule resource_name_general) simp
  also have "py_split_from ''://'' [] (''fetch?url=http'' @ ''://'' @ ''example.org'') =
      ([] @ ''fetch?url=http'') # py_split_from ''://'' [] ''example.org''"
    by (rule py_split_from_scheme) simp
  finally have n: "resource_name ''proxy://fetch?url=http://example.org'' = Inr ''fetch?url=http''"
    by simp
  then show ?thesis
    by (simp add: handle_resources_list_def resource_def MCPServer_def del: str_contains.simps)
qed

end
